theory Spec2Isabelle
  imports Main "HOL-Library.Word"
begin

section \<open>JavaScript strings and the regular expressions of the password policy\<close>

text \<open>
  A JavaScript string is modelled as a \<open>string\<close>: a list of code units below 256.
  \<open>code c\<close> is \<open>charCodeAt\<close>. The character classes of password-validation.ts are
  ASCII ranges, so every code unit from 128 on is outside \<open>[a-zA-Z0-9]\<close>.
\<close>

definition code :: "char \<Rightarrow> nat" where
  "code c = of_char c"

definition isLower :: "char \<Rightarrow> bool" where
  \<comment> \<open>the class \<open>[a-z]\<close>\<close>
  "isLower c = (97 \<le> code c \<and> code c \<le> 122)"

definition isUpper :: "char \<Rightarrow> bool" where
  \<comment> \<open>the class \<open>[A-Z]\<close>\<close>
  "isUpper c = (65 \<le> code c \<and> code c \<le> 90)"

definition isDigit :: "char \<Rightarrow> bool" where
  \<comment> \<open>the class \<open>[0-9]\<close>\<close>
  "isDigit c = (48 \<le> code c \<and> code c \<le> 57)"

definition isSpecial :: "char \<Rightarrow> bool" where
  \<comment> \<open>the class \<open>[^a-zA-Z0-9]\<close>\<close>
  "isSpecial c = (\<not> isLower c \<and> \<not> isUpper c \<and> \<not> isDigit c)"

definition isLineTerminator :: "char \<Rightarrow> bool" where
  \<comment> \<open>LF and CR; U+2028 and U+2029 are beyond the code units of the model\<close>
  "isLineTerminator c = (code c = 10 \<or> code c = 13)"

definition dot :: "char \<Rightarrow> bool" where
  \<comment> \<open>the atom \<open>.\<close> of a regular expression without the \<open>s\<close> flag\<close>
  "dot c = (\<not> isLineTerminator c)"

definition canonicalize :: "char \<Rightarrow> nat" where
  \<comment> \<open>case folding of the \<open>i\<close> flag, as a code unit: a lowercase ASCII letter becomes
      its uppercase letter; no code unit from 128 on folds to an ASCII one\<close>
  "canonicalize c = (if isLower c then code c - 32 else code c)"

definition charMatches :: "bool \<Rightarrow> char \<Rightarrow> char \<Rightarrow> bool" where
  \<comment> \<open>a pattern character against an input character; \<open>ci\<close> is the \<open>i\<close> flag\<close>
  "charMatches ci p c = (if ci then canonicalize p = canonicalize c else p = c)"

fun matchesAt :: "bool \<Rightarrow> string \<Rightarrow> string \<Rightarrow> bool" where
  "matchesAt ci [] s = True"
| "matchesAt ci (p # ps) [] = False"
| "matchesAt ci (p # ps) (c # cs) = (charMatches ci p c \<and> matchesAt ci ps cs)"

fun testLiteral :: "bool \<Rightarrow> string \<Rightarrow> string \<Rightarrow> bool" where
  \<comment> \<open>\<open>/pat/.test(s)\<close> for a pattern of literal characters: a match at some offset\<close>
  "testLiteral ci pat [] = matchesAt ci pat []"
| "testLiteral ci pat (c # cs) = (matchesAt ci pat (c # cs) \<or> testLiteral ci pat cs)"

definition testClass :: "(char \<Rightarrow> bool) \<Rightarrow> string \<Rightarrow> bool" where
  \<comment> \<open>\<open>/[class]/.test(s)\<close>\<close>
  "testClass P s = list_ex P s"

definition commonPatterns :: "(bool \<times> string) list" where
  \<comment> \<open>each pattern with its \<open>i\<close> flag\<close>
  "commonPatterns =
     [(False, ''123456''), (True, ''password''), (True, ''qwerty''),
      (True, ''admin''), (True, ''user''), (True, ''login'')]"

definition hasCommonPattern :: "string \<Rightarrow> bool" where
  \<comment> \<open>\<open>commonPatterns.some(pattern => pattern.test(password))\<close>\<close>
  "hasCommonPattern s = list_ex (\<lambda>(ci, pat). testLiteral ci pat s) commonPatterns"

definition sequentialPatterns :: "string list" where
  "sequentialPatterns =
     [''abc'', ''bcd'', ''cde'', ''def'', ''efg'', ''fgh'', ''ghi'', ''hij'', ''ijk'',
      ''jkl'', ''klm'', ''lmn'', ''mno'', ''nop'', ''opq'', ''pqr'', ''qrs'', ''rst'',
      ''stu'', ''tuv'', ''uvw'', ''vwx'', ''wxy'', ''xyz'',
      ''012'', ''123'', ''234'', ''345'', ''456'', ''567'', ''678'', ''789'']"

definition hasSequential :: "string \<Rightarrow> bool" where
  \<comment> \<open>\<open>/(?:abc|bcd|...|789)/i.test(password)\<close>\<close>
  "hasSequential s = list_ex (\<lambda>pat. testLiteral True pat s) sequentialPatterns"

fun hasRepeated :: "string \<Rightarrow> bool" where
  \<comment> \<open>\<open>/(.)\1{2,}/.test(password)\<close>: a character matched by \<open>.\<close> and then the same
      character twice more\<close>
  "hasRepeated (a # b # c # rest) = ((dot a \<and> b = a \<and> c = a) \<or> hasRepeated (b # c # rest))"
| "hasRepeated s = False"

section \<open>password-validation.ts: the password schema\<close>

text \<open>
  A zod schema runs every check and collects one issue per failed check; \<open>safeParse\<close>
  succeeds when no issue was raised. The input is a string already (the type check of
  \<open>z.string()\<close>).
\<close>

definition issueIf :: "bool \<Rightarrow> string \<Rightarrow> string list" where
  "issueIf failed msg = (if failed then [msg] else [])"

definition passwordIssues :: "string \<Rightarrow> string list" where
  "passwordIssues password =
     issueIf (length password < 8) ''Password must be at least 8 characters long''
   @ issueIf (length password > 128) ''Password must not exceed 128 characters''
   @ issueIf (\<not> testClass isLower password) ''Password must contain at least one lowercase letter''
   @ issueIf (\<not> testClass isUpper password) ''Password must contain at least one uppercase letter''
   @ issueIf (\<not> testClass isDigit password) ''Password must contain at least one number''
   @ issueIf (\<not> testClass isSpecial password) ''Password must contain at least one special character''
   @ issueIf (\<not> (\<not> hasCommonPattern password)) ''Password contains common patterns and is not secure''
   @ issueIf (\<not> (\<not> hasSequential password)) ''Password should not contain sequential characters''
   @ issueIf (\<not> (\<not> hasRepeated password))
        ''Password should not contain more than 2 consecutive identical characters''"

definition passwordValidationSchema :: "string \<Rightarrow> bool" where
  \<comment> \<open>\<open>passwordValidationSchema.safeParse(password).success\<close>\<close>
  "passwordValidationSchema password = (passwordIssues password = [])"

section \<open>password-validation.ts: the strength scorer\<close>

datatype strength = VeryWeak | Weak | Fair | Good | Strong

record analysis =
  score :: nat
  strength :: strength
  feedback :: "string list"

definition bump :: "bool \<Rightarrow> string \<Rightarrow> nat \<times> string list \<Rightarrow> nat \<times> string list" where
  \<comment> \<open>\<open>if (cond) score += 1; else feedback.push(msg)\<close>\<close>
  "bump cond msg acc =
     (if cond then (fst acc + 1, snd acc) else (fst acc, snd acc @ [msg]))"

definition lengthScoring :: "string \<Rightarrow> nat \<times> string list \<Rightarrow> nat \<times> string list" where
  \<comment> \<open>the three length tests; the \<open>else if\<close> belongs to the third\<close>
  "lengthScoring password acc =
     (let s1 = (if length password \<ge> 8 then fst acc + 1 else fst acc);
          s2 = (if length password \<ge> 12 then s1 + 1 else s1)
      in if length password \<ge> 16 then (s2 + 1, snd acc)
         else if length password < 8 then (s2, snd acc @ [''Use at least 8 characters''])
         else (s2, snd acc))"

definition strengthOf :: "nat \<Rightarrow> strength" where
  "strengthOf sc =
     (if sc \<le> 2 then VeryWeak
      else if sc \<le> 4 then Weak
      else if sc \<le> 6 then Fair
      else if sc \<le> 8 then Good
      else Strong)"

definition scoreAndFeedback :: "string \<Rightarrow> nat \<times> string list" where
  "scoreAndFeedback password =
     (bump (\<not> hasSequential password) ''Avoid sequential characters''
     (bump (\<not> hasRepeated password) ''Avoid repeated characters''
     (bump (testClass isSpecial password) ''Add special characters''
     (bump (testClass isDigit password) ''Add numbers''
     (bump (testClass isUpper password) ''Add uppercase letters''
     (bump (testClass isLower password) ''Add lowercase letters''
     (lengthScoring password (0, []))))))))"

definition calculatePasswordStrength :: "string \<Rightarrow> analysis" where
  "calculatePasswordStrength password =
     (let acc = scoreAndFeedback password
      in \<lparr> score = fst acc, strength = strengthOf (fst acc), feedback = snd acc \<rparr>)"

section \<open>Node's Buffer, string splitting and crypto primitives\<close>

datatype error =
    TypeError
  | RangeError
  | JsonWebTokenError
  | TokenExpiredError
  | DatabaseError

type_synonym byte = "8 word"
type_synonym buffer = "byte list"

definition hexDigit :: "nat \<Rightarrow> char" where
  \<comment> \<open>the lowercase hexadecimal digit of a value below 16\<close>
  "hexDigit n = (if n < 10 then char_of (48 + n) else char_of (87 + n))"

fun toHex :: "buffer \<Rightarrow> string" where
  \<comment> \<open>\<open>buf.toString("hex")\<close>\<close>
  "toHex [] = []"
| "toHex (b # bs) = hexDigit (unat b div 16) # hexDigit (unat b mod 16) # toHex bs"

definition hexValue :: "char \<Rightarrow> nat option" where
  "hexValue c =
     (if isDigit c then Some (code c - 48)
      else if 97 \<le> code c \<and> code c \<le> 102 then Some (code c - 87)
      else if 65 \<le> code c \<and> code c \<le> 70 then Some (code c - 55)
      else None)"

fun fromHex :: "string \<Rightarrow> buffer" where
  \<comment> \<open>\<open>Buffer.from(s, "hex")\<close>: pairs of hexadecimal digits, cut at the first pair
      that is not one; a trailing single character is dropped\<close>
  "fromHex (a # b # rest) =
     (case hexValue a of
        None \<Rightarrow> []
      | Some x \<Rightarrow>
          (case hexValue b of
             None \<Rightarrow> []
           | Some y \<Rightarrow> of_nat (16 * x + y) # fromHex rest))"
| "fromHex s = []"

fun splitOn :: "char \<Rightarrow> string \<Rightarrow> string list" where
  \<comment> \<open>\<open>s.split(sep)\<close> for a separator of one character\<close>
  "splitOn sep [] = [[]]"
| "splitOn sep (c # cs) =
     (if c = sep then [] # splitOn sep cs
      else (case splitOn sep cs of
              [] \<Rightarrow> [[c]]
            | p # ps \<Rightarrow> (c # p) # ps))"

definition timingSafeEqual :: "buffer \<Rightarrow> buffer \<Rightarrow> error + bool" where
  \<comment> \<open>crypto.timingSafeEqual throws a RangeError on buffers of different byte length\<close>
  "timingSafeEqual a b = (if length a \<noteq> length b then Inl RangeError else Inr (a = b))"

section \<open>The collaborators outside the repository\<close>

record User =
  u_id :: string
  u_name :: string
  u_email :: string
  u_password :: string
  u_role :: string

record JWTPayload =
  a_userId :: string
  a_email :: string
  a_role :: string
  a_iat :: "nat option"
  a_exp :: "nat option"

record RefreshTokenPayload =
  r_userId :: string
  r_tokenId :: string
  r_iat :: "nat option"
  r_exp :: "nat option"

text \<open>
  The libraries are parameters of the model. \<open>scrypt password salt keylen\<close> is the
  key derivation of Node's crypto. \<open>signAccess\<close> and \<open>decodeAccess\<close> are jsonwebtoken's
  encoding and its signature check with parsing under \<open>JWT_SECRET\<close>; \<open>signRefresh\<close> and
  \<open>decodeRefresh\<close> the same under \<open>REFRESH_SECRET\<close>. \<open>zodEmail\<close> is the address pattern
  of zod's \<open>.email()\<close>.
\<close>

record env =
  scrypt :: "string \<Rightarrow> string \<Rightarrow> nat \<Rightarrow> buffer"
  signAccess :: "JWTPayload \<Rightarrow> string"
  decodeAccess :: "string \<Rightarrow> JWTPayload option"
  signRefresh :: "RefreshTokenPayload \<Rightarrow> string"
  decodeRefresh :: "string \<Rightarrow> RefreshTokenPayload option"
  zodEmail :: "string \<Rightarrow> bool"

text \<open>
  Time is in milliseconds since the epoch (\<open>new Date()\<close>); jsonwebtoken's clock is
  \<open>Math.floor(Date.now() / 1000)\<close>, and a token is expired from the second \<open>exp\<close> on.
\<close>

definition expired :: "nat \<Rightarrow> nat option \<Rightarrow> bool" where
  "expired now e = (case e of None \<Rightarrow> False | Some x \<Rightarrow> now div 1000 \<ge> x)"

definition jwtVerifyAccess :: "env \<Rightarrow> nat \<Rightarrow> string \<Rightarrow> error + JWTPayload" where
  \<comment> \<open>\<open>jwt.verify(token, JWT_SECRET)\<close>\<close>
  "jwtVerifyAccess e now token =
     (case decodeAccess e token of
        None \<Rightarrow> Inl JsonWebTokenError
      | Some payload \<Rightarrow>
          if expired now (a_exp payload) then Inl TokenExpiredError else Inr payload)"

definition jwtVerifyRefresh :: "env \<Rightarrow> nat \<Rightarrow> string \<Rightarrow> error + RefreshTokenPayload" where
  \<comment> \<open>\<open>jwt.verify(token, REFRESH_SECRET)\<close>\<close>
  "jwtVerifyRefresh e now token =
     (case decodeRefresh e token of
        None \<Rightarrow> Inl JsonWebTokenError
      | Some payload \<Rightarrow>
          if expired now (r_exp payload) then Inl TokenExpiredError else Inr payload)"

section \<open>auth.ts: the password hasher\<close>

definition hashPassword :: "env \<Rightarrow> buffer \<Rightarrow> string \<Rightarrow> string" where
  \<comment> \<open>\<open>saltBytes\<close> is the result of \<open>randomBytes(16)\<close>\<close>
  "hashPassword e saltBytes password =
     (let salt = toHex saltBytes;
          buf = scrypt e password salt 64
      in toHex buf @ ''.'' @ salt)"

definition comparePasswords :: "env \<Rightarrow> string \<Rightarrow> string \<Rightarrow> error + bool" where
  \<comment> \<open>\<open>const [hashed, salt] = stored.split(".")\<close>: with fewer than two parts \<open>salt\<close> is
      undefined and scrypt throws a TypeError; further parts are ignored\<close>
  "comparePasswords e supplied stored =
     (case splitOn (CHR ''.'') stored of
        hashed # salt # others \<Rightarrow>
          (let hashedBuf = fromHex hashed;
               suppliedBuf = scrypt e supplied salt 64
           in timingSafeEqual hashedBuf suppliedBuf)
      | _ \<Rightarrow> Inl TypeError)"

section \<open>storage.ts: the relational store\<close>

record RefreshToken =
  rt_userId :: string
  rt_token :: string
  rt_expiresAt :: nat

record BlacklistedToken =
  bl_token :: string
  bl_expiresAt :: nat

text \<open>
  The three tables the authentication layer reads and writes, as lists of rows in
  insertion order. The columns \<open>token\<close> of both token tables and \<open>email\<close> of the users
  table are declared unique, and \<open>refresh_tokens.user_id\<close> references a user: an insert
  that breaks a constraint throws. A select destructured as \<open>const [row] = ...\<close> keeps
  the first row.
\<close>

text \<open>
  The database itself is always reachable in the model: the \<open>catch\<close> blocks of the
  callers are entered only by the constraint violations above and by the exceptions of
  the crypto and token libraries.
\<close>

record store =
  users :: "User list"
  refreshTokens :: "RefreshToken list"
  blacklistedTokens :: "BlacklistedToken list"

definition getUser :: "store \<Rightarrow> string \<Rightarrow> User option" where
  "getUser st uid = find (\<lambda>u. u_id u = uid) (users st)"

definition getUserByEmail :: "store \<Rightarrow> string \<Rightarrow> User option" where
  "getUserByEmail st mail = find (\<lambda>u. u_email u = mail) (users st)"

definition createUser :: "store \<Rightarrow> User \<Rightarrow> error + (User \<times> store)" where
  \<comment> \<open>the row arrives with the id the database generated\<close>
  "createUser st u =
     (if list_ex (\<lambda>x. u_email x = u_email u \<or> u_id x = u_id u) (users st)
      then Inl DatabaseError
      else Inr (u, st\<lparr>users := users st @ [u]\<rparr>))"

definition createRefreshToken :: "store \<Rightarrow> RefreshToken \<Rightarrow> error + store" where
  "createRefreshToken st row =
     (if list_ex (\<lambda>r. rt_token r = rt_token row) (refreshTokens st)
         \<or> getUser st (rt_userId row) = None
      then Inl DatabaseError
      else Inr (st\<lparr>refreshTokens := refreshTokens st @ [row]\<rparr>))"

definition getRefreshToken :: "store \<Rightarrow> string \<Rightarrow> string \<Rightarrow> RefreshToken option" where
  "getRefreshToken st tokenId userId =
     find (\<lambda>r. rt_token r = tokenId \<and> rt_userId r = userId) (refreshTokens st)"

definition storageRevokeRefreshToken :: "store \<Rightarrow> string \<Rightarrow> string \<Rightarrow> store" where
  \<comment> \<open>DatabaseStorage.revokeRefreshToken\<close>
  "storageRevokeRefreshToken st tokenId userId =
     st\<lparr>refreshTokens :=
          filter (\<lambda>r. \<not> (rt_token r = tokenId \<and> rt_userId r = userId)) (refreshTokens st)\<rparr>"

definition storageRevokeAllRefreshTokens :: "store \<Rightarrow> string \<Rightarrow> store" where
  "storageRevokeAllRefreshTokens st userId =
     st\<lparr>refreshTokens := filter (\<lambda>r. \<not> rt_userId r = userId) (refreshTokens st)\<rparr>"

definition storageBlacklistToken :: "store \<Rightarrow> BlacklistedToken \<Rightarrow> error + store" where
  "storageBlacklistToken st row =
     (if list_ex (\<lambda>b. bl_token b = bl_token row) (blacklistedTokens st)
      then Inl DatabaseError
      else Inr (st\<lparr>blacklistedTokens := blacklistedTokens st @ [row]\<rparr>))"

definition storageIsTokenBlacklisted :: "store \<Rightarrow> string \<Rightarrow> bool" where
  \<comment> \<open>\<open>const [blacklisted] = ...where(eq(blacklistedTokens.token, token)); return !!blacklisted\<close>\<close>
  "storageIsTokenBlacklisted st token =
     (find (\<lambda>b. bl_token b = token) (blacklistedTokens st) \<noteq> None)"

definition cleanupExpiredTokens :: "nat \<Rightarrow> store \<Rightarrow> store" where
  "cleanupExpiredTokens now st =
     st\<lparr>refreshTokens := filter (\<lambda>r. \<not> rt_expiresAt r < now) (refreshTokens st),
        blacklistedTokens := filter (\<lambda>b. \<not> bl_expiresAt b < now) (blacklistedTokens st)\<rparr>"

section \<open>jwt.ts: issuing, verifying and revoking tokens\<close>

definition generateAccessToken :: "env \<Rightarrow> nat \<Rightarrow> User \<Rightarrow> string" where
  \<comment> \<open>\<open>expiresIn: "15m"\<close>\<close>
  "generateAccessToken e now user =
     signAccess e
       \<lparr> a_userId = u_id user, a_email = u_email user, a_role = u_role user,
         a_iat = Some (now div 1000), a_exp = Some (now div 1000 + 900) \<rparr>"

definition generateRefreshToken ::
  "env \<Rightarrow> nat \<Rightarrow> buffer \<Rightarrow> store \<Rightarrow> string \<Rightarrow> error + ((string \<times> string) \<times> store)" where
  \<comment> \<open>\<open>idBytes\<close> is the result of \<open>randomBytes(32)\<close>; seven days are taken as
      \<open>7 * 24 * 60 * 60 * 1000\<close> milliseconds\<close>
  "generateRefreshToken e now idBytes st userId =
     (let tokenId = toHex idBytes;
          expiresAt = now + 604800000;
          token = signRefresh e
                    \<lparr> r_userId = userId, r_tokenId = tokenId,
                      r_iat = Some (now div 1000), r_exp = Some (now div 1000 + 604800) \<rparr>
      in case createRefreshToken st
                \<lparr> rt_userId = userId, rt_token = tokenId, rt_expiresAt = expiresAt \<rparr> of
           Inl err \<Rightarrow> Inl err
         | Inr st' \<Rightarrow> Inr ((token, tokenId), st'))"

definition verifyAccessToken :: "env \<Rightarrow> nat \<Rightarrow> string \<Rightarrow> JWTPayload option" where
  "verifyAccessToken e now token =
     (case jwtVerifyAccess e now token of
        Inr payload \<Rightarrow> Some payload
      | Inl err \<Rightarrow> None)"

definition verifyRefreshToken ::
  "env \<Rightarrow> nat \<Rightarrow> store \<Rightarrow> string \<Rightarrow> RefreshTokenPayload option" where
  "verifyRefreshToken e now st token =
     (case jwtVerifyRefresh e now token of
        Inr payload \<Rightarrow>
          (case getRefreshToken st (r_tokenId payload) (r_userId payload) of
             None \<Rightarrow> None
           | Some storedToken \<Rightarrow>
               if rt_expiresAt storedToken < now then None else Some payload)
      | Inl err \<Rightarrow> None)"

definition blacklistToken :: "env \<Rightarrow> nat \<Rightarrow> store \<Rightarrow> string \<Rightarrow> store" where
  \<comment> \<open>the \<open>try\<close> block covers the insert as well: a failed insert leaves the store as it
      was; \<open>if (payload.exp)\<close> is false for a missing and for a zero \<open>exp\<close>\<close>
  "blacklistToken e now st token =
     (case jwtVerifyAccess e now token of
        Inr payload \<Rightarrow>
          (case a_exp payload of
             None \<Rightarrow> st
           | Some x \<Rightarrow>
               if x = 0 then st
               else (case storageBlacklistToken st
                            \<lparr> bl_token = token, bl_expiresAt = x * 1000 \<rparr> of
                       Inr st' \<Rightarrow> st'
                     | Inl err \<Rightarrow> st))
      | Inl err \<Rightarrow> st)"

definition isTokenBlacklisted :: "store \<Rightarrow> string \<Rightarrow> bool" where
  "isTokenBlacklisted st token = storageIsTokenBlacklisted st token"

definition revokeRefreshToken :: "store \<Rightarrow> string \<Rightarrow> string \<Rightarrow> store" where
  "revokeRefreshToken st tokenId userId = storageRevokeRefreshToken st tokenId userId"

definition revokeAllRefreshTokens :: "store \<Rightarrow> string \<Rightarrow> store" where
  "revokeAllRefreshTokens st userId = storageRevokeAllRefreshTokens st userId"

section \<open>auth.ts: requests, responses and the middleware\<close>

datatype json =
    JString string
  | JArray "json list"
  | JObject "(string \<times> json) list"

datatype cookieOp =
    SetCookie string string
  | ClearCookie string

record response =
  status :: nat
  jsonBody :: json
  cookieOps :: "cookieOp list"

text \<open>
  A request carries the \<open>Authorization\<close> header, the two cookies and the string fields
  of its JSON body; each may be absent.
\<close>

record request =
  authorization :: "string option"
  cookieAccessToken :: "string option"
  cookieRefreshToken :: "string option"
  body :: "(string \<times> string) list"

definition truthy :: "string option \<Rightarrow> bool" where
  \<comment> \<open>\<open>undefined\<close> and the empty string are falsy\<close>
  "truthy v = (case v of None \<Rightarrow> False | Some s \<Rightarrow> s \<noteq> [])"

definition orElse :: "string option \<Rightarrow> string option \<Rightarrow> string option" where
  \<comment> \<open>\<open>a || b\<close>\<close>
  "orElse a b = (if truthy a then a else b)"

definition second :: "string list \<Rightarrow> string option" where
  \<comment> \<open>\<open>parts[1]\<close>\<close>
  "second parts = (case parts of a # b # rest \<Rightarrow> Some b | _ \<Rightarrow> None)"

definition errorBody :: "string \<Rightarrow> string \<Rightarrow> json" where
  "errorBody msg c = JObject [(''error'', JString msg), (''code'', JString c)]"

definition reject401 :: "string \<Rightarrow> string \<Rightarrow> response" where
  "reject401 msg c = \<lparr> status = 401, jsonBody = errorBody msg c, cookieOps = [] \<rparr>"

definition middlewareToken :: "request \<Rightarrow> string option" where
  \<comment> \<open>\<open>const token = authHeader && authHeader.split(' ')[1];
      const finalToken = token || cookieToken\<close>\<close>
  "middlewareToken req =
     (let token = (case authorization req of
                     None \<Rightarrow> None
                   | Some authHeader \<Rightarrow>
                       if authHeader = [] then Some []
                       else second (splitOn (CHR '' '') authHeader))
      in orElse token (cookieAccessToken req))"

definition authenticateToken :: "env \<Rightarrow> nat \<Rightarrow> store \<Rightarrow> request \<Rightarrow> response + User" where
  \<comment> \<open>\<open>Inl\<close> is the response of a rejected request, \<open>Inr\<close> the user attached to the
      request when \<open>next()\<close> is called\<close>
  "authenticateToken e now st req =
     (case middlewareToken req of
        None \<Rightarrow> Inl (reject401 ''Access token is required'' ''TOKEN_MISSING'')
      | Some finalToken \<Rightarrow>
          if finalToken = [] then Inl (reject401 ''Access token is required'' ''TOKEN_MISSING'')
          else if isTokenBlacklisted st finalToken
            then Inl (reject401 ''Token has been revoked'' ''TOKEN_REVOKED'')
          else (case verifyAccessToken e now finalToken of
                  None \<Rightarrow> Inl (reject401 ''Invalid or expired token'' ''TOKEN_INVALID'')
                | Some payload \<Rightarrow>
                    (case getUser st (a_userId payload) of
                       None \<Rightarrow> Inl (reject401 ''User not found'' ''USER_NOT_FOUND'')
                     | Some user \<Rightarrow> Inr user)))"

definition clearTokenCookies :: "cookieOp list" where
  "clearTokenCookies = [ClearCookie ''accessToken'', ClearCookie ''refreshToken'']"

definition setTokenCookies :: "string \<Rightarrow> string \<Rightarrow> cookieOp list" where
  "setTokenCookies accessToken refreshToken =
     [SetCookie ''accessToken'' accessToken, SetCookie ''refreshToken'' refreshToken]"

definition userWithoutPassword :: "User \<Rightarrow> json" where
  "userWithoutPassword u =
     JObject [(''id'', JString (u_id u)), (''name'', JString (u_name u)),
              (''email'', JString (u_email u)), (''role'', JString (u_role u))]"

section \<open>password-validation.ts: the email, name, login and registration schemas\<close>

definition startsWith :: "char \<Rightarrow> string \<Rightarrow> bool" where
  "startsWith c s = (case s of [] \<Rightarrow> False | x # xs \<Rightarrow> x = c)"

definition endsWith :: "char \<Rightarrow> string \<Rightarrow> bool" where
  "endsWith c s = (s \<noteq> [] \<and> last s = c)"

definition emailRefine :: "string \<Rightarrow> bool" where
  "emailRefine mail =
     (case splitOn (CHR ''@'') mail of
        [localPart, domain] \<Rightarrow>
          if length localPart > 64 then False
          else if startsWith (CHR ''.'') localPart \<or> endsWith (CHR ''.'') localPart then False
          else if testLiteral False ''..'' localPart then False
          else if length domain > 253 then False
          else if startsWith (CHR ''-'') domain \<or> endsWith (CHR ''-'') domain then False
          else True
      | _ \<Rightarrow> False)"

definition emailIssues :: "env \<Rightarrow> string \<Rightarrow> string list" where
  "emailIssues e mail =
     issueIf (\<not> zodEmail e mail) ''Please enter a valid email address''
   @ issueIf (length mail < 5) ''Email must be at least 5 characters long''
   @ issueIf (length mail > 254) ''Email must not exceed 254 characters''
   @ issueIf (\<not> emailRefine mail) ''Email format is not valid''"

definition isSpace :: "char \<Rightarrow> bool" where
  \<comment> \<open>the class \<open>\s\<close>, on the code units of the model\<close>
  "isSpace c = (code c \<in> {9, 10, 11, 12, 13, 32, 160})"

definition nameChar :: "char \<Rightarrow> bool" where
  \<comment> \<open>the class \<open>[a-zA-Z\s'-]\<close>\<close>
  "nameChar c = (isLower c \<or> isUpper c \<or> isSpace c \<or> code c = 39 \<or> code c = 45)"

definition nameEdge :: "char \<Rightarrow> bool" where
  \<comment> \<open>the class \<open>[-'\s]\<close>\<close>
  "nameEdge c = (code c = 45 \<or> code c = 39 \<or> isSpace c)"

fun hasSpaceRun :: "string \<Rightarrow> bool" where
  \<comment> \<open>\<open>/\s{4,}/\<close>\<close>
  "hasSpaceRun (a # b # c # d # rest) =
     ((isSpace a \<and> isSpace b \<and> isSpace c \<and> isSpace d) \<or> hasSpaceRun (b # c # d # rest))"
| "hasSpaceRun s = False"

definition nameIssues :: "string \<Rightarrow> string list" where
  "nameIssues n =
     issueIf (length n < 2) ''Name must be at least 2 characters long''
   @ issueIf (length n > 50) ''Name must not exceed 50 characters''
   @ issueIf (\<not> (n \<noteq> [] \<and> list_all nameChar n))
        ''Name can only contain letters, spaces, hyphens, and apostrophes''
   @ issueIf (\<not> (\<not> (n \<noteq> [] \<and> (nameEdge (hd n) \<or> nameEdge (last n)))))
        ''Name cannot start or end with special characters''
   @ issueIf (\<not> (\<not> hasSpaceRun n)) ''Name contains too many consecutive spaces''"

type_synonym issue = "string \<times> string"

definition fieldIssues :: "string \<Rightarrow> (string \<Rightarrow> string list) \<Rightarrow> request \<Rightarrow> issue list" where
  \<comment> \<open>the issues of one field of the body, each with the field as its path\<close>
  "fieldIssues k check req =
     (case map_of (body req) k of
        None \<Rightarrow> [(k, ''Required'')]
      | Some v \<Rightarrow> map (Pair k) (check v))"

definition loginIssues :: "env \<Rightarrow> request \<Rightarrow> issue list" where
  "loginIssues e req =
     fieldIssues ''email'' (emailIssues e) req
   @ fieldIssues ''password'' (\<lambda>p. issueIf (length p < 1) ''Password is required'') req"

definition loginValidationSchema :: "env \<Rightarrow> request \<Rightarrow> issue list + (string \<times> string)" where
  \<comment> \<open>\<open>safeParse(req.body)\<close>: the issues, or the validated email and password\<close>
  "loginValidationSchema e req =
     (case (map_of (body req) ''email'', map_of (body req) ''password'') of
        (Some mail, Some password) \<Rightarrow>
          if loginIssues e req = [] then Inr (mail, password) else Inl (loginIssues e req)
      | _ \<Rightarrow> Inl (loginIssues e req))"

definition registrationIssues :: "env \<Rightarrow> request \<Rightarrow> issue list" where
  "registrationIssues e req =
     fieldIssues ''name'' nameIssues req
   @ fieldIssues ''email'' (emailIssues e) req
   @ fieldIssues ''password'' passwordIssues req
   @ fieldIssues ''confirmPassword'' (\<lambda>c. []) req
   @ (case (map_of (body req) ''name'', map_of (body req) ''email'',
            map_of (body req) ''password'', map_of (body req) ''confirmPassword'') of
        (Some n, Some mail, Some password, Some confirmPassword) \<Rightarrow>
          (if password = confirmPassword then []
           else [(''confirmPassword'', ''Passwords do not match'')])
      | _ \<Rightarrow> [])"

definition registrationValidationSchema ::
  "env \<Rightarrow> request \<Rightarrow> issue list + (string \<times> string \<times> string)" where
  \<comment> \<open>the issues, or the validated name, email and password\<close>
  "registrationValidationSchema e req =
     (case (map_of (body req) ''name'', map_of (body req) ''email'',
            map_of (body req) ''password'') of
        (Some n, Some mail, Some password) \<Rightarrow>
          if registrationIssues e req = [] then Inr (n, mail, password)
          else Inl (registrationIssues e req)
      | _ \<Rightarrow> Inl (registrationIssues e req))"

definition detailsJson :: "issue list \<Rightarrow> json" where
  "detailsJson issues =
     JArray (map (\<lambda>(f, m). JObject [(''field'', JString f), (''message'', JString m)]) issues)"

section \<open>auth.ts: the route handlers\<close>

definition strengthName :: "strength \<Rightarrow> string" where
  "strengthName s =
     (case s of VeryWeak \<Rightarrow> ''very-weak'' | Weak \<Rightarrow> ''weak'' | Fair \<Rightarrow> ''fair''
      | Good \<Rightarrow> ''good'' | Strong \<Rightarrow> ''strong'')"

definition weakPasswordResponse :: "analysis \<Rightarrow> response" where
  "weakPasswordResponse a =
     \<lparr> status = 400,
       jsonBody = JObject [(''error'', JString ''Password is too weak''),
                           (''feedback'', JArray (map JString (feedback a))),
                           (''strength'', JString (strengthName (strength a)))],
       cookieOps = [] \<rparr>"

definition internalError :: "string \<Rightarrow> cookieOp list \<Rightarrow> response" where
  "internalError c ops =
     \<lparr> status = 500, jsonBody = errorBody ''Internal server error'' c, cookieOps = ops \<rparr>"

record randomness =
  saltBytes :: buffer
  newUserId :: string
  idBytes :: buffer

text \<open>
  A handler takes the values the run draws from outside (the clock, the random bytes,
  the id the database gives a new row) and the store, and returns the response with the
  store after it. One request reads the clock once.
\<close>

definition registerHandler ::
  "env \<Rightarrow> nat \<Rightarrow> randomness \<Rightarrow> store \<Rightarrow> request \<Rightarrow> response \<times> store" where
  "registerHandler e now rnd st req =
     (case registrationValidationSchema e req of
        Inl issues \<Rightarrow>
          (\<lparr> status = 400,
             jsonBody = JObject [(''error'', JString ''Validation failed''),
                                 (''details'', detailsJson issues)],
             cookieOps = [] \<rparr>, st)
      | Inr (n, mail, password) \<Rightarrow>
          (case getUserByEmail st mail of
             Some existingUser \<Rightarrow>
               (\<lparr> status = 409,
                  jsonBody = errorBody ''Email already registered'' ''EMAIL_EXISTS'',
                  cookieOps = [] \<rparr>, st)
           | None \<Rightarrow>
               (let strengthAnalysis = calculatePasswordStrength password
                in if strength strengthAnalysis = VeryWeak \<or> strength strengthAnalysis = Weak
                   then (weakPasswordResponse strengthAnalysis, st)
                   else
                     (let hashedPassword = hashPassword e (saltBytes rnd) password
                      in case createUser st
                                 \<lparr> u_id = newUserId rnd, u_name = n, u_email = mail,
                                   u_password = hashedPassword, u_role = ''student'' \<rparr> of
                           Inl err \<Rightarrow> (internalError ''REGISTRATION_ERROR'' [], st)
                         | Inr (user, st1) \<Rightarrow>
                             (let accessToken = generateAccessToken e now user
                              in case generateRefreshToken e now (idBytes rnd) st1 (u_id user) of
                                   Inl err \<Rightarrow> (internalError ''REGISTRATION_ERROR'' [], st1)
                                 | Inr ((refreshToken, tokenId), st2) \<Rightarrow>
                                     (\<lparr> status = 201,
                                        jsonBody = JObject
                                          [(''user'', userWithoutPassword user),
                                           (''message'', JString ''Account created successfully'')],
                                        cookieOps = setTokenCookies accessToken refreshToken \<rparr>,
                                      st2))))))"

definition loginHandler ::
  "env \<Rightarrow> nat \<Rightarrow> randomness \<Rightarrow> store \<Rightarrow> request \<Rightarrow> response \<times> store" where
  "loginHandler e now rnd st req =
     (case loginValidationSchema e req of
        Inl issues \<Rightarrow>
          (\<lparr> status = 400,
             jsonBody = JObject [(''error'', JString ''Invalid input''),
                                 (''details'', detailsJson issues)],
             cookieOps = [] \<rparr>, st)
      | Inr (mail, password) \<Rightarrow>
          (case getUserByEmail st mail of
             None \<Rightarrow> (reject401 ''Invalid credentials'' ''INVALID_CREDENTIALS'', st)
           | Some user \<Rightarrow>
               (case comparePasswords e password (u_password user) of
                  Inl err \<Rightarrow> (internalError ''LOGIN_ERROR'' [], st)
                | Inr isPasswordValid \<Rightarrow>
                    if \<not> isPasswordValid
                    then (reject401 ''Invalid credentials'' ''INVALID_CREDENTIALS'', st)
                    else
                      (let accessToken = generateAccessToken e now user
                       in case generateRefreshToken e now (idBytes rnd) st (u_id user) of
                            Inl err \<Rightarrow> (internalError ''LOGIN_ERROR'' [], st)
                          | Inr ((refreshToken, tokenId), st1) \<Rightarrow>
                              (\<lparr> status = 200,
                                 jsonBody = JObject
                                   [(''user'', userWithoutPassword user),
                                    (''message'', JString ''Login successful'')],
                                 cookieOps = setTokenCookies accessToken refreshToken \<rparr>,
                               st1)))))"

definition refreshHandler ::
  "env \<Rightarrow> nat \<Rightarrow> randomness \<Rightarrow> store \<Rightarrow> request \<Rightarrow> response \<times> store" where
  "refreshHandler e now rnd st req =
     (case orElse (cookieRefreshToken req) (map_of (body req) ''refreshToken'') of
        None \<Rightarrow> (reject401 ''Refresh token is required'' ''REFRESH_TOKEN_MISSING'', st)
      | Some refreshToken \<Rightarrow>
          if refreshToken = []
          then (reject401 ''Refresh token is required'' ''REFRESH_TOKEN_MISSING'', st)
          else
            (case verifyRefreshToken e now st refreshToken of
               None \<Rightarrow>
                 (\<lparr> status = 401,
                    jsonBody = errorBody ''Invalid or expired refresh token''
                                 ''REFRESH_TOKEN_INVALID'',
                    cookieOps = clearTokenCookies \<rparr>, st)
             | Some payload \<Rightarrow>
                 (case getUser st (r_userId payload) of
                    None \<Rightarrow>
                      (\<lparr> status = 401,
                         jsonBody = errorBody ''User not found'' ''USER_NOT_FOUND'',
                         cookieOps = clearTokenCookies \<rparr>, st)
                  | Some user \<Rightarrow>
                      (let st1 = revokeRefreshToken st (r_tokenId payload) (r_userId payload);
                           newAccessToken = generateAccessToken e now user
                       in case generateRefreshToken e now (idBytes rnd) st1 (u_id user) of
                            Inl err \<Rightarrow> (internalError ''REFRESH_ERROR'' clearTokenCookies, st1)
                          | Inr ((newRefreshToken, tokenId), st2) \<Rightarrow>
                              (\<lparr> status = 200,
                                 jsonBody = JObject
                                   [(''user'', userWithoutPassword user),
                                    (''message'', JString ''Tokens refreshed successfully'')],
                                 cookieOps = setTokenCookies newAccessToken newRefreshToken \<rparr>,
                               st2)))))"

definition logoutToken :: "request \<Rightarrow> string option" where
  \<comment> \<open>\<open>req.cookies?.accessToken || req.headers.authorization?.split(' ')[1]\<close>\<close>
  "logoutToken req =
     orElse (cookieAccessToken req)
       (case authorization req of
          None \<Rightarrow> None
        | Some authHeader \<Rightarrow> second (splitOn (CHR '' '') authHeader))"

definition logoutHandler :: "env \<Rightarrow> nat \<Rightarrow> store \<Rightarrow> request \<Rightarrow> response \<times> store" where
  \<comment> \<open>the handler proper, run once the middleware has called \<open>next()\<close>\<close>
  "logoutHandler e now st req =
     (let st1 = (case logoutToken req of
                   None \<Rightarrow> st
                 | Some accessToken \<Rightarrow>
                     if accessToken = [] then st else blacklistToken e now st accessToken);
          st2 = (case cookieRefreshToken req of
                   None \<Rightarrow> st1
                 | Some refreshToken \<Rightarrow>
                     if refreshToken = [] then st1
                     else (case verifyRefreshToken e now st1 refreshToken of
                             None \<Rightarrow> st1
                           | Some payload \<Rightarrow>
                               revokeRefreshToken st1 (r_tokenId payload) (r_userId payload)))
      in (\<lparr> status = 200,
            jsonBody = JObject [(''message'', JString ''Logout successful'')],
            cookieOps = clearTokenCookies \<rparr>, st2))"

definition logoutRoute :: "env \<Rightarrow> nat \<Rightarrow> store \<Rightarrow> request \<Rightarrow> response \<times> store" where
  \<comment> \<open>\<open>app.post("/api/logout", authenticateToken, handler)\<close>\<close>
  "logoutRoute e now st req =
     (case authenticateToken e now st req of
        Inl rejected \<Rightarrow> (rejected, st)
      | Inr user \<Rightarrow> logoutHandler e now st req)"

definition logoutAllRoute :: "env \<Rightarrow> nat \<Rightarrow> store \<Rightarrow> request \<Rightarrow> response \<times> store" where
  \<comment> \<open>\<open>app.post("/api/logout-all", authenticateToken, handler)\<close>\<close>
  "logoutAllRoute e now st req =
     (case authenticateToken e now st req of
        Inl rejected \<Rightarrow> (rejected, st)
      | Inr user \<Rightarrow>
          (\<lparr> status = 200,
             jsonBody = JObject
               [(''message'', JString ''Logged out from all devices successfully'')],
             cookieOps = clearTokenCookies \<rparr>,
           revokeAllRefreshTokens st (u_id user)))"

section \<open>The acceptance rule in the words of the specification\<close>

text \<open>
  The rule the specification states for accepting a password, written from its sentences
  and not from the regular expressions of the source: length 8 to 128; a lowercase
  letter, an uppercase letter, a digit and a non-alphanumeric character; no denylisted
  substring, ignoring case; no three consecutive characters that ascend by one within
  the letters (ignoring case) or within the digits; no character three times in a row.
\<close>

definition specDenylist :: "string list" where
  "specDenylist = [''123456'', ''password'', ''qwerty'', ''admin'', ''user'', ''login'']"

definition specDenylisted :: "string \<Rightarrow> bool" where
  "specDenylisted p = list_ex (\<lambda>d. testLiteral True d p) specDenylist"

definition specNext :: "char \<Rightarrow> char \<Rightarrow> bool" where
  \<comment> \<open>\<open>b\<close> is the letter after the letter \<open>a\<close>, or the digit after the digit \<open>a\<close>\<close>
  "specNext a b =
     (((isLower a \<or> isUpper a) \<and> (isLower b \<or> isUpper b)
        \<and> canonicalize a + 1 = canonicalize b)
      \<or> (isDigit a \<and> isDigit b \<and> code a + 1 = code b))"

fun specAscendingRun :: "string \<Rightarrow> bool" where
  "specAscendingRun (a # b # c # rest) =
     ((specNext a b \<and> specNext b c) \<or> specAscendingRun (b # c # rest))"
| "specAscendingRun s = False"

fun specRepeatedRun :: "string \<Rightarrow> bool" where
  "specRepeatedRun (a # b # c # rest) = ((a = b \<and> b = c) \<or> specRepeatedRun (b # c # rest))"
| "specRepeatedRun s = False"

definition specPasswordAccepted :: "string \<Rightarrow> bool" where
  "specPasswordAccepted p =
     (8 \<le> length p \<and> length p \<le> 128
      \<and> list_ex isLower p \<and> list_ex isUpper p \<and> list_ex isDigit p \<and> list_ex isSpecial p
      \<and> \<not> specDenylisted p \<and> \<not> specAscendingRun p \<and> \<not> specRepeatedRun p)"

text \<open>
  The strength score in the words of the specification: one point each for length at
  least 8, 12 and 16, for each of the four character classes present, for the absence of
  a repeated run and for the absence of a sequential run; the bands are very-weak up to
  2, weak up to 4, fair up to 6, good up to 8 and strong at 9.
\<close>

definition specScore :: "string \<Rightarrow> nat" where
  "specScore p =
       of_bool (8 \<le> length p) + of_bool (12 \<le> length p) + of_bool (16 \<le> length p)
     + of_bool (list_ex isLower p) + of_bool (list_ex isUpper p)
     + of_bool (list_ex isDigit p) + of_bool (list_ex isSpecial p)
     + of_bool (\<not> specRepeatedRun p) + of_bool (\<not> specAscendingRun p)"

definition specBand :: "nat \<Rightarrow> strength" where
  "specBand s =
     (if s \<le> 2 then VeryWeak
      else if s \<le> 4 then Weak
      else if s \<le> 6 then Fair
      else if s \<le> 8 then Good
      else Strong)"

section \<open>Invariants of the store\<close>

text \<open>
  Two properties of every store the handlers produce from the empty one: blacklist rows
  are only written by blacklistToken, and the database refuses a second refresh record
  with the same token id.
\<close>

definition blacklistConsistent :: "env \<Rightarrow> store \<Rightarrow> bool" where
  \<comment> \<open>every blacklist row is as blacklistToken writes it: its token decodes under the
      access secret and its \<open>expiresAt\<close> is the token's \<open>exp\<close> in milliseconds\<close>
  "blacklistConsistent e st =
     list_all (\<lambda>b. case decodeAccess e (bl_token b) of
                      None \<Rightarrow> False
                    | Some payload \<Rightarrow>
                        (case a_exp payload of
                           None \<Rightarrow> False
                         | Some x \<Rightarrow> bl_expiresAt b = x * 1000))
       (blacklistedTokens st)"

definition refreshTokensUnique :: "store \<Rightarrow> bool" where
  \<comment> \<open>the unique constraint on \<open>refresh_tokens.token\<close>\<close>
  "refreshTokensUnique st = distinct (map rt_token (refreshTokens st))"

definition storeInvariant :: "env \<Rightarrow> store \<Rightarrow> bool" where
  "storeInvariant e st = (blacklistConsistent e st \<and> refreshTokensUnique st)"

definition emptyStore :: store where
  "emptyStore = \<lparr> users = [], refreshTokens = [], blacklistedTokens = [] \<rparr>"

text \<open>
  The stores the system can be in: the empty store, and what any route of the
  authentication layer or the periodic sweep makes of a reachable store, for any
  request, clock value and random draw.
\<close>

inductive reachable :: "env \<Rightarrow> store \<Rightarrow> bool" for e :: env where
  initial: "reachable e emptyStore"
| register: "reachable e st \<Longrightarrow> reachable e (snd (registerHandler e now rnd st req))"
| login: "reachable e st \<Longrightarrow> reachable e (snd (loginHandler e now rnd st req))"
| refresh: "reachable e st \<Longrightarrow> reachable e (snd (refreshHandler e now rnd st req))"
| logout: "reachable e st \<Longrightarrow> reachable e (snd (logoutRoute e now st req))"
| logoutAll: "reachable e st \<Longrightarrow> reachable e (snd (logoutAllRoute e now st req))"
| sweep: "reachable e st \<Longrightarrow> reachable e (cleanupExpiredTokens now st)"

section \<open>Example environment, store and requests\<close>

text \<open>
  A toy instance of the libraries for concrete evaluations: the key derivation repeats
  one byte (the sum of the code units of password and salt), and two fixed strings stand
  for a signed access token and a signed refresh token of the user \<open>u1\<close>, issued at
  second 1000.
\<close>

definition exampleEnv :: env where
  "exampleEnv =
     \<lparr> scrypt = (\<lambda>p s n. replicate n (of_nat (sum_list (map code (p @ s))))),
       signAccess = (\<lambda>p. ''access-ada''),
       decodeAccess = (\<lambda>t. if t = ''access-ada''
          then Some \<lparr> a_userId = ''u1'', a_email = ''ada@example.com'', a_role = ''student'',
                      a_iat = Some 1000, a_exp = Some 1900 \<rparr>
          else None),
       signRefresh = (\<lambda>p. ''refresh-ada''),
       decodeRefresh = (\<lambda>t. if t = ''refresh-ada''
          then Some \<lparr> r_userId = ''u1'', r_tokenId = ''aa01'',
                      r_iat = Some 1000, r_exp = Some 605800 \<rparr>
          else None),
       zodEmail = (\<lambda>s. list_ex (\<lambda>c. c = CHR ''@'') s) \<rparr>"

definition exampleUser :: User where
  "exampleUser =
     \<lparr> u_id = ''u1'', u_name = ''Ada Lovelace'', u_email = ''ada@example.com'',
       u_password = hashPassword exampleEnv [1, 2] ''Str0ng!Pass9'', u_role = ''student'' \<rparr>"

definition exampleStore :: store where
  "exampleStore =
     \<lparr> users = [exampleUser],
       refreshTokens = [\<lparr> rt_userId = ''u1'', rt_token = ''aa01'', rt_expiresAt = 605800000 \<rparr>],
       blacklistedTokens = [] \<rparr>"

definition emptyRequest :: request where
  "emptyRequest =
     \<lparr> authorization = None, cookieAccessToken = None, cookieRefreshToken = None, body = [] \<rparr>"

definition examplePayload :: RefreshTokenPayload where
  "examplePayload = \<lparr> r_userId = ''u1'', r_tokenId = ''aa01'', r_iat = Some 1000, r_exp = Some 605800 \<rparr>"

definition revokedStore :: store where
  "revokedStore =
     exampleStore\<lparr>blacklistedTokens := [\<lparr> bl_token = ''access-ada'', bl_expiresAt = 1900000 \<rparr>]\<rparr>"

definition bearerAda :: request where
  "bearerAda = emptyRequest\<lparr>authorization := Some ''Bearer access-ada''\<rparr>"

definition staleLogout :: request where
  \<comment> \<open>a logout with a well-signed access token and the refresh cookie of the session\<close>
  "staleLogout =
     emptyRequest\<lparr>authorization := Some ''Bearer access-ada'',
                  cookieRefreshToken := Some ''refresh-ada''\<rparr>"

definition garbageRefreshLogout :: request where
  "garbageRefreshLogout =
     emptyRequest\<lparr>authorization := Some ''Bearer access-ada'',
                  cookieRefreshToken := Some ''garbage''\<rparr>"

definition wrongPasswordLogin :: request where
  "wrongPasswordLogin =
     emptyRequest\<lparr>body := [(''email'', ''ada@example.com''), (''password'', ''Str0ng!Pass8'')]\<rparr>"

definition exampleRandomness :: randomness where
  "exampleRandomness = \<lparr> saltBytes = [7], newUserId = ''u2'', idBytes = [1, 2] \<rparr>"

definition exampleRegistration :: request where
  "exampleRegistration =
     emptyRequest\<lparr>body := [(''name'', ''Bob Bee''), (''email'', ''bob@example.com''),
                            (''password'', ''Str0ng!Pass9''),
                            (''confirmPassword'', ''Str0ng!Pass9'')]\<rparr>"

definition staleStore :: store where
  \<comment> \<open>the example store with a refresh record that expired at millisecond 500000 and
      the access token of the session on the blacklist\<close>
  "staleStore =
     \<lparr> users = [exampleUser],
       refreshTokens = [\<lparr> rt_userId = ''u1'', rt_token = ''aa01'', rt_expiresAt = 500000 \<rparr>],
       blacklistedTokens = [\<lparr> bl_token = ''access-ada'', bl_expiresAt = 1900000 \<rparr>] \<rparr>"

definition newlinePassword :: string where
  \<comment> \<open>the eight characters \<open>A a 1 !\<close>, three line feeds and \<open>Z\<close>\<close>
  "newlinePassword = [CHR ''A'', CHR ''a'', CHR ''1'', CHR ''!'', CHR 0x0A, CHR 0x0A, CHR 0x0A, CHR ''Z'']"

definition adaRegistration :: request where
  "adaRegistration =
     emptyRequest\<lparr>body := [(''name'', ''Ada Lovelace''), (''email'', ''ada@example.com''),
                            (''password'', ''Str0ng!Pass9''),
                            (''confirmPassword'', ''Str0ng!Pass9'')]\<rparr>"

definition adaRandomness :: randomness where
  "adaRandomness = \<lparr> saltBytes = [1, 2], newUserId = ''u1'', idBytes = [170, 1] \<rparr>"

section \<open>Properties of the password policy\<close>

lemma passwordValidationSchema_iff:
  "passwordValidationSchema p \<longleftrightarrow>
     8 \<le> length p \<and> length p \<le> 128 \<and> testClass isLower p \<and> testClass isUpper p \<and>
     testClass isDigit p \<and> testClass isSpecial p \<and> \<not> hasCommonPattern p \<and>
     \<not> hasSequential p \<and> \<not> hasRepeated p"
  by (auto simp: passwordValidationSchema_def passwordIssues_def issueIf_def)

lemma fst_bump: "fst (bump c m acc) = fst acc + of_bool c"
  by (simp add: bump_def)

lemma fst_lengthScoring:
  "fst (lengthScoring p acc) =
     fst acc + of_bool (8 \<le> length p) + of_bool (12 \<le> length p) + of_bool (16 \<le> length p)"
  by (simp add: lengthScoring_def Let_def)

lemma score_sum:
  "score (calculatePasswordStrength p) =
     of_bool (8 \<le> length p) + of_bool (12 \<le> length p) + of_bool (16 \<le> length p)
     + of_bool (testClass isLower p) + of_bool (testClass isUpper p)
     + of_bool (testClass isDigit p) + of_bool (testClass isSpecial p)
     + of_bool (\<not> hasRepeated p) + of_bool (\<not> hasSequential p)"
  by (simp add: calculatePasswordStrength_def scoreAndFeedback_def Let_def fst_bump fst_lengthScoring)

lemma of_bool_le_1: "of_bool b \<le> (1::nat)"
  by simp

lemma score_le_9: "score (calculatePasswordStrength p) \<le> 9"
  unfolding score_sum
  using of_bool_le_1[of "8 \<le> length p"] of_bool_le_1[of "12 \<le> length p"]
     of_bool_le_1[of "16 \<le> length p"]
     of_bool_le_1[of "testClass isLower p"] of_bool_le_1[of "testClass isUpper p"]
     of_bool_le_1[of "testClass isDigit p"] of_bool_le_1[of "testClass isSpecial p"]
     of_bool_le_1[of "\<not> hasRepeated p"] of_bool_le_1[of "\<not> hasSequential p"]
  by linarith

lemma strength_is_strengthOf:
  "strength (calculatePasswordStrength p) = strengthOf (score (calculatePasswordStrength p))"
  by (simp add: calculatePasswordStrength_def Let_def)

lemma strengthOf_bands:
  "(strengthOf s = VeryWeak \<longleftrightarrow> s \<le> 2) \<and>
   (strengthOf s = Weak \<longleftrightarrow> 3 \<le> s \<and> s \<le> 4) \<and>
   (strengthOf s = Fair \<longleftrightarrow> 5 \<le> s \<and> s \<le> 6) \<and>
   (strengthOf s = Good \<longleftrightarrow> 7 \<le> s \<and> s \<le> 8) \<and>
   (strengthOf s = Strong \<longleftrightarrow> 9 \<le> s)"
  by (auto simp: strengthOf_def)

lemma schema_accepts_Passw0rd: "passwordValidationSchema ''Passw0rd!''"
  by code_simp

lemma strength_Passw0rd:
  "calculatePasswordStrength ''Passw0rd!'' = \<lparr> score = 7, strength = Good, feedback = [] \<rparr>"
  by code_simp

text \<open>
  The scorer as the code computes it, a function of the password alone. Its score is the
  number of the nine tests of the source that hold (length at least 8, 12 and 16; the
  four character-class patterns match; the repeated-character pattern and the
  sequential-character pattern do not match), so it lies between 0 and 9; the band is
  very-weak up to 2, weak up to 4, fair up to 6, good up to 8 and strong at 9. The
  password Passw0rd! passes the schema and always scores 7, band good.
\<close>

theorem calculatePasswordStrength_points_and_bands:
  "score (calculatePasswordStrength p) =
       of_bool (8 \<le> length p) + of_bool (12 \<le> length p) + of_bool (16 \<le> length p)
     + of_bool (testClass isLower p) + of_bool (testClass isUpper p)
     + of_bool (testClass isDigit p) + of_bool (testClass isSpecial p)
     + of_bool (\<not> hasRepeated p) + of_bool (\<not> hasSequential p)
   \<and> score (calculatePasswordStrength p) \<le> 9
   \<and> (strength (calculatePasswordStrength p) = VeryWeak \<longleftrightarrow>
        score (calculatePasswordStrength p) \<le> 2)
   \<and> (strength (calculatePasswordStrength p) = Weak \<longleftrightarrow>
        3 \<le> score (calculatePasswordStrength p) \<and> score (calculatePasswordStrength p) \<le> 4)
   \<and> (strength (calculatePasswordStrength p) = Fair \<longleftrightarrow>
        5 \<le> score (calculatePasswordStrength p) \<and> score (calculatePasswordStrength p) \<le> 6)
   \<and> (strength (calculatePasswordStrength p) = Good \<longleftrightarrow>
        7 \<le> score (calculatePasswordStrength p) \<and> score (calculatePasswordStrength p) \<le> 8)
   \<and> (strength (calculatePasswordStrength p) = Strong \<longleftrightarrow>
        score (calculatePasswordStrength p) = 9)
   \<and> passwordValidationSchema ''Passw0rd!''
   \<and> calculatePasswordStrength ''Passw0rd!'' = \<lparr> score = 7, strength = Good, feedback = [] \<rparr>"
proof -
  let ?s = "score (calculatePasswordStrength p)"
  have le: "?s \<le> 9" by (rule score_le_9)
  have st: "strength (calculatePasswordStrength p) = strengthOf ?s"
    by (rule strength_is_strengthOf)
  have strong: "strengthOf ?s = Strong \<longleftrightarrow> ?s = 9"
    using strengthOf_bands[of ?s] le by auto
  show ?thesis
    using score_sum[of p] le strengthOf_bands[of ?s] strong schema_accepts_Passw0rd strength_Passw0rd
    unfolding st by blast
qed

section \<open>Properties of the password hasher\<close>

lemma hexValue_hexDigit: "n < 16 \<Longrightarrow> hexValue (hexDigit n) = Some n"
  by (auto simp: hexValue_def hexDigit_def isDigit_def code_def)

lemma fromHex_toHex: "fromHex (toHex bs) = bs"
proof (induction bs)
  case Nil
  show ?case by simp
next
  case (Cons b bs)
  have "unat b div 16 < 16"
    using unsigned_less[of b, where 'a=nat] by simp
  moreover have "unat b mod 16 < 16" by simp
  moreover have "16 * (unat b div 16) + unat b mod 16 = unat b" by simp
  ultimately show ?case using Cons by (simp add: hexValue_hexDigit)
qed

lemma hexDigit_not_dot: "n < 16 \<Longrightarrow> hexDigit n \<noteq> CHR ''.''"
proof
  assume n: "n < 16" and "hexDigit n = CHR ''.''"
  then have "code (hexDigit n) = code (CHR ''.'')" by simp
  with n show False by (auto simp: hexDigit_def code_def split: if_splits)
qed

lemma toHex_no_dot: "CHR ''.'' \<notin> set (toHex bs)"
proof (induction bs)
  case Nil
  show ?case by simp
next
  case (Cons b bs)
  have "unat b div 16 < 16"
    using unsigned_less[of b, where 'a=nat] by simp
  then have "hexDigit (unat b div 16) \<noteq> CHR ''.''"
    by (rule hexDigit_not_dot)
  moreover have "hexDigit (unat b mod 16) \<noteq> CHR ''.''"
    by (rule hexDigit_not_dot) simp
  ultimately show ?case using Cons by simp
qed

lemma splitOn_nonempty: "splitOn sep s \<noteq> []"
  by (induction s) (auto split: list.splits)

lemma splitOn_no_sep: "sep \<notin> set s \<Longrightarrow> splitOn sep s = [s]"
  by (induction s) (auto split: list.splits)



section \<open>Refresh tokens are single-use\<close>

lemma find_filter_none: "(\<And>x. P x \<Longrightarrow> \<not> Q x) \<Longrightarrow> find P (filter Q xs) = None"
  by (induction xs) auto

lemma getRefreshToken_revoked:
  "getRefreshToken (revokeRefreshToken st tid uid) tid uid = None"
  unfolding getRefreshToken_def revokeRefreshToken_def storageRevokeRefreshToken_def
  by (simp, rule find_filter_none) simp

lemma verifyRefreshToken_payload:
  "verifyRefreshToken e now st token = Some payload \<Longrightarrow> decodeRefresh e token = Some payload"
  by (auto simp: verifyRefreshToken_def jwtVerifyRefresh_def
      split: sum.splits option.splits if_splits)

lemma verifyRefreshToken_no_row:
  "decodeRefresh e token = Some payload \<Longrightarrow>
   getRefreshToken st (r_tokenId payload) (r_userId payload) = None \<Longrightarrow>
   verifyRefreshToken e now st token = None"
  by (auto simp: verifyRefreshToken_def jwtVerifyRefresh_def
      split: sum.splits option.splits if_splits)

text \<open>
  C1. A refresh token is single-use. When a refresh token verifies and the rotation flow
  revokes its record (revokeRefreshToken with the tokenId and userId of its payload), the
  lookup by (tokenId, userId) finds no row, and verifying the same token again returns
  null, at whatever time the second call is made.
\<close>

theorem refresh_token_single_use:
  assumes "verifyRefreshToken e now st token = Some payload"
  shows "getRefreshToken (revokeRefreshToken st (r_tokenId payload) (r_userId payload))
            (r_tokenId payload) (r_userId payload) = None
       \<and> verifyRefreshToken e later
            (revokeRefreshToken st (r_tokenId payload) (r_userId payload)) token = None"
proof -
  have d: "decodeRefresh e token = Some payload"
    using assms by (rule verifyRefreshToken_payload)
  have g: "getRefreshToken (revokeRefreshToken st (r_tokenId payload) (r_userId payload))
            (r_tokenId payload) (r_userId payload) = None"
    by (rule getRefreshToken_revoked)
  from d g show ?thesis by (simp add: verifyRefreshToken_no_row)
qed

lemma example_verifyRefresh:
  "verifyRefreshToken exampleEnv 1000000 exampleStore ''refresh-ada'' = Some examplePayload"
  by (simp add: verifyRefreshToken_def jwtVerifyRefresh_def exampleEnv_def expired_def
      getRefreshToken_def exampleStore_def examplePayload_def)

text \<open>
  The example session: the refresh token verifies, and after the revocation it does not.
\<close>

theorem refresh_token_single_use_witness:
  "verifyRefreshToken exampleEnv 1000000 exampleStore ''refresh-ada'' = Some examplePayload
   \<and> verifyRefreshToken exampleEnv 1000001 
        (revokeRefreshToken exampleStore ''aa01'' ''u1'') ''refresh-ada'' = None"
  using refresh_token_single_use[OF example_verifyRefresh, of 1000001] example_verifyRefresh
  by (simp add: examplePayload_def)

lemma find_append_none: "find P xs = None \<Longrightarrow> find P (xs @ [y]) = (if P y then Some y else None)"
  by (induction xs) (auto split: if_splits)

lemma generateRefreshToken_lookup:
  assumes "generateRefreshToken e now ib st uid = Inr (r, st')"
    and "getRefreshToken st tid uid' = None" and "toHex ib \<noteq> tid"
  shows "getRefreshToken st' tid uid' = None"
  using assms
  by (auto simp: generateRefreshToken_def createRefreshToken_def Let_def getRefreshToken_def
      find_append_none split: if_splits sum.splits)

text \<open>
  The same through the whole refresh handler: after a successful rotation the presented
  token no longer verifies, provided the tokenId drawn for the new token differs from the
  old one.
\<close>

lemma refreshHandler_rotation:
  assumes ok: "refreshHandler e now rnd st req = (resp, st')" "status resp = 200"
    and tok: "orElse (cookieRefreshToken req) (map_of (body req) ''refreshToken'') = Some token"
    and dec: "decodeRefresh e token = Some payload"
    and fresh: "toHex (idBytes rnd) \<noteq> r_tokenId payload"
  shows "verifyRefreshToken e later st' token = None"
proof -
  have ne: "token \<noteq> []"
    using ok tok by (auto simp: refreshHandler_def reject401_def)
  obtain p where v: "verifyRefreshToken e now st token = Some p"
    using ok tok ne by (cases "verifyRefreshToken e now st token") (auto simp: refreshHandler_def)
  then have "decodeRefresh e token = Some p" by (rule verifyRefreshToken_payload)
  with dec have pp: "p = payload" by simp
  obtain u where u: "getUser st (r_userId payload) = Some u"
    using ok tok ne v pp by (cases "getUser st (r_userId payload)") (auto simp: refreshHandler_def)
  let ?st1 = "revokeRefreshToken st (r_tokenId payload) (r_userId payload)"
  obtain r where g: "generateRefreshToken e now (idBytes rnd) ?st1 (u_id u) = Inr (r, st')"
    using ok tok ne v pp u
    by (auto simp: refreshHandler_def Let_def internalError_def split: sum.splits)
  have "getRefreshToken st' (r_tokenId payload) (r_userId payload) = None"
    using generateRefreshToken_lookup[OF g getRefreshToken_revoked fresh] .
  with dec show ?thesis by (rule verifyRefreshToken_no_row)
qed

section \<open>The order of the middleware\<close>

text \<open>
  C3. The middleware decides in this order: a missing token is rejected as
  TOKEN_MISSING; then a blacklisted token is rejected with 401 and TOKEN_REVOKED,
  whatever its signature and expiry would say (the environment and the clock do not
  occur in that case); then a token that fails verification is rejected as
  TOKEN_INVALID; then an unknown user as USER_NOT_FOUND; otherwise the user is attached
  and the request proceeds.
\<close>

theorem authenticateToken_checks_blacklist_first:
  "(\<not> truthy (middlewareToken req) \<longrightarrow>
      authenticateToken e now st req =
        Inl \<lparr> status = 401,
              jsonBody = JObject [(''error'', JString ''Access token is required''),
                                  (''code'', JString ''TOKEN_MISSING'')],
              cookieOps = [] \<rparr>)
 \<and> (middlewareToken req = Some token \<and> token \<noteq> [] \<and> isTokenBlacklisted st token \<longrightarrow>
      authenticateToken e now st req =
        Inl \<lparr> status = 401,
              jsonBody = JObject [(''error'', JString ''Token has been revoked''),
                                  (''code'', JString ''TOKEN_REVOKED'')],
              cookieOps = [] \<rparr>)
 \<and> (middlewareToken req = Some token \<and> token \<noteq> [] \<and> \<not> isTokenBlacklisted st token
      \<and> verifyAccessToken e now token = None \<longrightarrow>
      authenticateToken e now st req =
        Inl \<lparr> status = 401,
              jsonBody = JObject [(''error'', JString ''Invalid or expired token''),
                                  (''code'', JString ''TOKEN_INVALID'')],
              cookieOps = [] \<rparr>)
 \<and> (middlewareToken req = Some token \<and> token \<noteq> [] \<and> \<not> isTokenBlacklisted st token
      \<and> verifyAccessToken e now token = Some payload \<and> getUser st (a_userId payload) = None \<longrightarrow>
      authenticateToken e now st req =
        Inl \<lparr> status = 401,
              jsonBody = JObject [(''error'', JString ''User not found''),
                                  (''code'', JString ''USER_NOT_FOUND'')],
              cookieOps = [] \<rparr>)
 \<and> (middlewareToken req = Some token \<and> token \<noteq> [] \<and> \<not> isTokenBlacklisted st token
      \<and> verifyAccessToken e now token = Some payload
      \<and> getUser st (a_userId payload) = Some user \<longrightarrow>
      authenticateToken e now st req = Inr user)"
  by (auto simp: authenticateToken_def reject401_def errorBody_def truthy_def
      split: option.splits)

lemma middlewareToken_bearerAda: "middlewareToken bearerAda = Some ''access-ada''"
  by (simp add: middlewareToken_def bearerAda_def emptyRequest_def second_def orElse_def truthy_def)

lemma verifyAccessToken_example:
  "verifyAccessToken exampleEnv 1000000 ''access-ada'' =
     Some \<lparr> a_userId = ''u1'', a_email = ''ada@example.com'', a_role = ''student'',
                      a_iat = Some 1000, a_exp = Some 1900 \<rparr>"
  by (simp add: verifyAccessToken_def jwtVerifyAccess_def exampleEnv_def expired_def)

lemma blacklisted_revokedStore: "isTokenBlacklisted revokedStore ''access-ada''"
  by (simp add: isTokenBlacklisted_def storageIsTokenBlacklisted_def revokedStore_def)

text \<open>
  The example: a token that still verifies is rejected as revoked once it is
  blacklisted, is accepted when it is not, and a request without token is rejected as
  missing.
\<close>

theorem authenticateToken_checks_blacklist_first_witness:
  "middlewareToken bearerAda = Some ''access-ada''
   \<and> isTokenBlacklisted revokedStore ''access-ada''
   \<and> verifyAccessToken exampleEnv 1000000 ''access-ada'' \<noteq> None
   \<and> authenticateToken exampleEnv 1000000 revokedStore bearerAda =
        Inl \<lparr> status = 401,
              jsonBody = JObject [(''error'', JString ''Token has been revoked''),
                                  (''code'', JString ''TOKEN_REVOKED'')],
              cookieOps = [] \<rparr>
   \<and> authenticateToken exampleEnv 1000000 exampleStore bearerAda = Inr exampleUser
   \<and> authenticateToken exampleEnv 1000000 exampleStore emptyRequest =
        Inl \<lparr> status = 401,
              jsonBody = JObject [(''error'', JString ''Access token is required''),
                                  (''code'', JString ''TOKEN_MISSING'')],
              cookieOps = [] \<rparr>"
proof -
  have notbl: "\<not> isTokenBlacklisted exampleStore ''access-ada''"
    by (simp add: isTokenBlacklisted_def storageIsTokenBlacklisted_def exampleStore_def)
  have u: "getUser exampleStore ''u1'' = Some exampleUser"
    by (simp add: getUser_def exampleStore_def exampleUser_def)
  have miss: "\<not> truthy (middlewareToken emptyRequest)"
    by (simp add: middlewareToken_def emptyRequest_def orElse_def truthy_def)
  let ?p = "\<lparr> a_userId = ''u1'', a_email = ''ada@example.com'', a_role = ''student'',
              a_iat = Some 1000, a_exp = Some (1900::nat) \<rparr>"
  have revoked: "authenticateToken exampleEnv 1000000 revokedStore bearerAda =
        Inl \<lparr> status = 401,
              jsonBody = JObject [(''error'', JString ''Token has been revoked''),
                                  (''code'', JString ''TOKEN_REVOKED'')],
              cookieOps = [] \<rparr>"
    using authenticateToken_checks_blacklist_first
            [where req = bearerAda and e = exampleEnv and now = 1000000 and st = revokedStore
               and token = "''access-ada''" and payload = ?p and user = exampleUser]
          middlewareToken_bearerAda blacklisted_revokedStore
    by simp
  have accepted: "authenticateToken exampleEnv 1000000 exampleStore bearerAda = Inr exampleUser"
    using authenticateToken_checks_blacklist_first
            [where req = bearerAda and e = exampleEnv and now = 1000000 and st = exampleStore
               and token = "''access-ada''" and payload = ?p and user = exampleUser]
          middlewareToken_bearerAda verifyAccessToken_example notbl u
    by simp
  have missing: "authenticateToken exampleEnv 1000000 exampleStore emptyRequest =
        Inl \<lparr> status = 401,
              jsonBody = JObject [(''error'', JString ''Access token is required''),
                                  (''code'', JString ''TOKEN_MISSING'')],
              cookieOps = [] \<rparr>"
    using authenticateToken_checks_blacklist_first
            [where req = emptyRequest and e = exampleEnv and now = 1000000 and st = exampleStore
               and token = "''access-ada''" and payload = ?p and user = exampleUser]
          miss
    by simp
  show ?thesis
    using revoked accepted missing middlewareToken_bearerAda blacklisted_revokedStore
      verifyAccessToken_example
    by simp
qed

section \<open>Logout\<close>

lemma blacklistToken_other_tables:
  "users (blacklistToken e now st t) = users st \<and>
   refreshTokens (blacklistToken e now st t) = refreshTokens st"
  by (auto simp: blacklistToken_def storageBlacklistToken_def
      split: sum.splits option.splits if_splits)

lemma blacklistToken_invalid:
  "verifyAccessToken e now t = None \<Longrightarrow> blacklistToken e now st t = st"
  by (auto simp: blacklistToken_def verifyAccessToken_def split: sum.splits)

lemma verifyRefreshToken_cong:
  "refreshTokens st' = refreshTokens st \<Longrightarrow>
   verifyRefreshToken e now st' t = verifyRefreshToken e now st t"
proof -
  assume "refreshTokens st' = refreshTokens st"
  then have "getRefreshToken st' = getRefreshToken st"
    by (simp add: getRefreshToken_def fun_eq_iff)
  then show ?thesis by (simp add: verifyRefreshToken_def split: sum.splits)
qed

lemma revokeRefreshToken_other_tables:
  "users (revokeRefreshToken st tid uid) = users st \<and>
   blacklistedTokens (revokeRefreshToken st tid uid) = blacklistedTokens st"
  by (simp add: revokeRefreshToken_def storageRevokeRefreshToken_def)

lemma logoutHandler_response:
  "fst (logoutHandler e now st req) =
     \<lparr> status = 200, jsonBody = JObject [(''message'', JString ''Logout successful'')],
       cookieOps = [ClearCookie ''accessToken'', ClearCookie ''refreshToken''] \<rparr>"
  by (simp add: logoutHandler_def Let_def clearTokenCookies_def)

lemma logoutHandler_users: "users (snd (logoutHandler e now st req)) = users st"
  by (auto simp: logoutHandler_def Let_def blacklistToken_other_tables
      revokeRefreshToken_other_tables split: option.splits)

lemma logoutHandler_refresh_noop:
  assumes "\<And>t. cookieRefreshToken req = Some t \<Longrightarrow> verifyRefreshToken e now st t = None"
  shows "refreshTokens (snd (logoutHandler e now st req)) = refreshTokens st"
  using assms
  by (auto simp: logoutHandler_def Let_def blacklistToken_other_tables
      verifyRefreshToken_cong[OF conjunct2[OF blacklistToken_other_tables]]
      split: option.splits)

lemma logoutHandler_access_noop:
  assumes "\<And>t. logoutToken req = Some t \<Longrightarrow> verifyAccessToken e now t = None"
  shows "blacklistedTokens (snd (logoutHandler e now st req)) = blacklistedTokens st"
  using assms
  by (auto simp: logoutHandler_def Let_def blacklistToken_invalid
      revokeRefreshToken_other_tables split: option.splits)

lemma authenticateToken_rejects_401:
  "authenticateToken e now st req = Inl rejected \<Longrightarrow> status rejected = 401"
  by (auto simp: authenticateToken_def reject401_def split: option.splits if_splits)

lemma isTokenBlacklisted_cong:
  "blacklistedTokens st' = blacklistedTokens st \<Longrightarrow>
   isTokenBlacklisted st' t = isTokenBlacklisted st t"
  by (simp add: isTokenBlacklisted_def storageIsTokenBlacklisted_def)

lemma find_append_hit: "P y \<Longrightarrow> find P (xs @ [y]) \<noteq> None"
  by (induction xs) auto

lemma blacklistToken_blacklists:
  assumes "verifyAccessToken e now t = Some payload" and "a_exp payload = Some x" and "x \<noteq> 0"
  shows "isTokenBlacklisted (blacklistToken e now st t) t"
proof -
  from assms(1) have j: "jwtVerifyAccess e now t = Inr payload"
    by (auto simp: verifyAccessToken_def split: sum.splits)
  show ?thesis
  proof (cases "list_ex (\<lambda>b. bl_token b = t) (blacklistedTokens st)")
    case True
    then have "blacklistToken e now st t = st"
      using j assms(2,3) by (simp add: blacklistToken_def storageBlacklistToken_def)
    moreover from True have "isTokenBlacklisted st t"
      by (auto simp: isTokenBlacklisted_def storageIsTokenBlacklisted_def list_ex_iff
          find_None_iff)
    ultimately show ?thesis by simp
  next
    case False
    then have "blacklistToken e now st t =
        st\<lparr>blacklistedTokens :=
             blacklistedTokens st @ [\<lparr> bl_token = t, bl_expiresAt = x * 1000 \<rparr>]\<rparr>"
      using j assms(2,3) by (simp add: blacklistToken_def storageBlacklistToken_def)
    then show ?thesis
      by (simp add: isTokenBlacklisted_def storageIsTokenBlacklisted_def find_append_hit)
  qed
qed

lemma logoutHandler_blacklists:
  assumes "logoutToken req = Some t" and "t \<noteq> []"
    and "verifyAccessToken e now t = Some payload" and "a_exp payload = Some x" and "x \<noteq> 0"
  shows "isTokenBlacklisted (snd (logoutHandler e now st req)) t"
proof -
  have "blacklistedTokens (snd (logoutHandler e now st req)) =
        blacklistedTokens (blacklistToken e now st t)"
    using assms(1,2)
    by (auto simp: logoutHandler_def Let_def revokeRefreshToken_other_tables
        split: option.splits)
  from isTokenBlacklisted_cong[OF this, of t] show ?thesis
    using blacklistToken_blacklists[OF assms(3,4,5), of st] by simp
qed

lemma logoutHandler_access_store:
  "\<exists>st1. users st1 = users st \<and> refreshTokens st1 = refreshTokens st
     \<and> snd (logoutHandler e now st req) =
         (case cookieRefreshToken req of
            None \<Rightarrow> st1
          | Some refreshToken \<Rightarrow>
              if refreshToken = [] then st1
              else (case verifyRefreshToken e now st1 refreshToken of
                      None \<Rightarrow> st1
                    | Some payload \<Rightarrow>
                        revokeRefreshToken st1 (r_tokenId payload) (r_userId payload)))"
proof (cases "logoutToken req")
  case None
  then show ?thesis by (intro exI[of _ st]) (simp add: logoutHandler_def Let_def)
next
  case (Some t)
  show ?thesis
  proof (cases "t = []")
    case True
    with Some show ?thesis by (intro exI[of _ st]) (simp add: logoutHandler_def Let_def)
  next
    case False
    with Some show ?thesis
      by (intro exI[of _ "blacklistToken e now st t"])
         (simp add: logoutHandler_def Let_def blacklistToken_other_tables)
  qed
qed

lemma logoutHandler_revokes:
  assumes "cookieRefreshToken req = Some rt" and "rt \<noteq> []"
    and "verifyRefreshToken e now st rt = Some payload"
  shows "verifyRefreshToken e later (snd (logoutHandler e now st req)) rt = None"
proof -
  obtain st1 where r: "refreshTokens st1 = refreshTokens st"
    and s: "snd (logoutHandler e now st req) =
         (case cookieRefreshToken req of
            None \<Rightarrow> st1
          | Some refreshToken \<Rightarrow>
              if refreshToken = [] then st1
              else (case verifyRefreshToken e now st1 refreshToken of
                      None \<Rightarrow> st1
                    | Some payload \<Rightarrow>
                        revokeRefreshToken st1 (r_tokenId payload) (r_userId payload)))"
    using logoutHandler_access_store[of st e now req] by blast
  have v: "verifyRefreshToken e now st1 rt = Some payload"
    using assms(3) verifyRefreshToken_cong[OF r, of e now rt] by simp
  have s': "snd (logoutHandler e now st req) =
          revokeRefreshToken st1 (r_tokenId payload) (r_userId payload)"
    using s assms(1,2) v by simp
  have d: "decodeRefresh e rt = Some payload"
    using assms(3) by (rule verifyRefreshToken_payload)
  show ?thesis
    unfolding s' using d getRefreshToken_revoked by (rule verifyRefreshToken_no_row)
qed

text \<open>
  C4, as the code has it. The logout route runs behind the authentication middleware.
  A request the middleware accepts always ends in 200 "Logout successful" with both
  cookies cleared, and the handler blacklists and revokes what it can: the access token
  it reads (the cookie first, then the header) is on the blacklist afterwards when it
  verifies with an expiry, and a refresh cookie that verifies does not verify any more
  afterwards. What does not verify is a no-op: a refresh cookie that does not verify
  leaves the refresh records as they were, an access token that does not verify leaves
  the blacklist as it was, and the users are untouched. A request the middleware
  rejects gets that 401 response and the store is unchanged.
\<close>

theorem logout_succeeds_once_authenticated:
  "(authenticateToken e now st req = Inr user \<longrightarrow>
      fst (logoutRoute e now st req) =
        \<lparr> status = 200, jsonBody = JObject [(''message'', JString ''Logout successful'')],
          cookieOps = [ClearCookie ''accessToken'', ClearCookie ''refreshToken''] \<rparr>
      \<and> users (snd (logoutRoute e now st req)) = users st
      \<and> (logoutToken req = Some t \<and> t \<noteq> [] \<and> verifyAccessToken e now t = Some payload
           \<and> a_exp payload = Some x \<and> x \<noteq> 0 \<longrightarrow>
           isTokenBlacklisted (snd (logoutRoute e now st req)) t)
      \<and> (cookieRefreshToken req = Some rt \<and> rt \<noteq> []
           \<and> verifyRefreshToken e now st rt = Some rpayload \<longrightarrow>
           verifyRefreshToken e later (snd (logoutRoute e now st req)) rt = None)
      \<and> ((\<forall>t. cookieRefreshToken req = Some t \<longrightarrow> verifyRefreshToken e now st t = None) \<longrightarrow>
           refreshTokens (snd (logoutRoute e now st req)) = refreshTokens st)
      \<and> ((\<forall>t. logoutToken req = Some t \<longrightarrow> verifyAccessToken e now t = None) \<longrightarrow>
           blacklistedTokens (snd (logoutRoute e now st req)) = blacklistedTokens st))
 \<and> (authenticateToken e now st req = Inl rejected \<longrightarrow>
      logoutRoute e now st req = (rejected, st) \<and> status rejected = 401)"
proof (intro conjI impI)
  assume a: "authenticateToken e now st req = Inr user"
  then have r: "logoutRoute e now st req = logoutHandler e now st req"
    by (simp add: logoutRoute_def)
  show "fst (logoutRoute e now st req) =
        \<lparr> status = 200, jsonBody = JObject [(''message'', JString ''Logout successful'')],
          cookieOps = [ClearCookie ''accessToken'', ClearCookie ''refreshToken''] \<rparr>"
    unfolding r by (rule logoutHandler_response)
  show "users (snd (logoutRoute e now st req)) = users st"
    unfolding r by (rule logoutHandler_users)
  {
    assume "logoutToken req = Some t \<and> t \<noteq> [] \<and> verifyAccessToken e now t = Some payload
           \<and> a_exp payload = Some x \<and> x \<noteq> 0"
    then show "isTokenBlacklisted (snd (logoutRoute e now st req)) t"
      unfolding r using logoutHandler_blacklists[of req t e now payload x st] by simp
  }
  {
    assume "cookieRefreshToken req = Some rt \<and> rt \<noteq> []
           \<and> verifyRefreshToken e now st rt = Some rpayload"
    then show "verifyRefreshToken e later (snd (logoutRoute e now st req)) rt = None"
      unfolding r using logoutHandler_revokes[of req rt e now st rpayload later] by simp
  }
  {
    assume "\<forall>t. cookieRefreshToken req = Some t \<longrightarrow> verifyRefreshToken e now st t = None"
    then show "refreshTokens (snd (logoutRoute e now st req)) = refreshTokens st"
      unfolding r by (intro logoutHandler_refresh_noop) simp
  }
  {
    assume "\<forall>t. logoutToken req = Some t \<longrightarrow> verifyAccessToken e now t = None"
    then show "blacklistedTokens (snd (logoutRoute e now st req)) = blacklistedTokens st"
      unfolding r by (intro logoutHandler_access_noop) simp
  }
next
  assume a: "authenticateToken e now st req = Inl rejected"
  then show "logoutRoute e now st req = (rejected, st)"
    by (simp add: logoutRoute_def)
  from a show "status rejected = 401" by (rule authenticateToken_rejects_401)
qed

lemma middlewareToken_staleLogout: "middlewareToken staleLogout = Some ''access-ada''"
  by (simp add: middlewareToken_def staleLogout_def emptyRequest_def second_def orElse_def
      truthy_def)

lemma authenticateToken_staleLogout_expired:
  "authenticateToken exampleEnv 2000000 exampleStore staleLogout =
     Inl \<lparr> status = 401,
           jsonBody = JObject [(''error'', JString ''Invalid or expired token''),
                               (''code'', JString ''TOKEN_INVALID'')],
           cookieOps = [] \<rparr>"
  by (simp add: authenticateToken_def middlewareToken_staleLogout isTokenBlacklisted_def
      storageIsTokenBlacklisted_def exampleStore_def verifyAccessToken_def jwtVerifyAccess_def
      exampleEnv_def expired_def reject401_def errorBody_def)

text \<open>
  C4 as stated fails: a logout presenting an expired access token and a refresh token
  that is still valid is answered with 401, nothing is revoked, and the refresh token
  verifies afterwards.
\<close>

theorem logout_expired_access_token_counterexample:
  "status (fst (logoutRoute exampleEnv 2000000 exampleStore staleLogout)) = 401
   \<and> snd (logoutRoute exampleEnv 2000000 exampleStore staleLogout) = exampleStore
   \<and> verifyRefreshToken exampleEnv 2000000
        (snd (logoutRoute exampleEnv 2000000 exampleStore staleLogout)) ''refresh-ada'' \<noteq> None"
proof -
  have r: "logoutRoute exampleEnv 2000000 exampleStore staleLogout =
     (\<lparr> status = 401,
           jsonBody = JObject [(''error'', JString ''Invalid or expired token''),
                               (''code'', JString ''TOKEN_INVALID'')],
           cookieOps = [] \<rparr>, exampleStore)"
    by (simp add: logoutRoute_def authenticateToken_staleLogout_expired)
  have v: "verifyRefreshToken exampleEnv 2000000 exampleStore ''refresh-ada'' \<noteq> None"
    by (simp add: verifyRefreshToken_def jwtVerifyRefresh_def exampleEnv_def expired_def
      getRefreshToken_def exampleStore_def)
  show ?thesis using v by (simp add: r)
qed

lemma logoutToken_staleLogout: "logoutToken staleLogout = Some ''access-ada''"
  by (simp add: logoutToken_def staleLogout_def emptyRequest_def second_def orElse_def
      truthy_def)

lemma authenticateToken_staleLogout_valid:
  "authenticateToken exampleEnv 1000000 exampleStore staleLogout = Inr exampleUser"
  by (simp add: authenticateToken_def middlewareToken_staleLogout isTokenBlacklisted_def
      storageIsTokenBlacklisted_def exampleStore_def verifyAccessToken_def jwtVerifyAccess_def
      exampleEnv_def expired_def getUser_def exampleUser_def)

text \<open>
  The example: an authenticated logout with valid tokens succeeds, blacklists the access
  token and revokes the refresh token; one with a malformed refresh cookie succeeds and
  leaves the refresh records alone; the logout with the expired access token is
  rejected.
\<close>

theorem logout_succeeds_once_authenticated_witness:
  "authenticateToken exampleEnv 1000000 exampleStore staleLogout = Inr exampleUser
   \<and> verifyAccessToken exampleEnv 1000000 ''access-ada'' \<noteq> None
   \<and> verifyRefreshToken exampleEnv 1000000 exampleStore ''refresh-ada'' = Some examplePayload
   \<and> status (fst (logoutRoute exampleEnv 1000000 exampleStore staleLogout)) = 200
   \<and> isTokenBlacklisted (snd (logoutRoute exampleEnv 1000000 exampleStore staleLogout))
        ''access-ada''
   \<and> verifyRefreshToken exampleEnv 1000001
        (snd (logoutRoute exampleEnv 1000000 exampleStore staleLogout)) ''refresh-ada'' = None
   \<and> authenticateToken exampleEnv 1000000 exampleStore garbageRefreshLogout = Inr exampleUser
   \<and> verifyRefreshToken exampleEnv 1000000 exampleStore ''garbage'' = None
   \<and> status (fst (logoutRoute exampleEnv 1000000 exampleStore garbageRefreshLogout)) = 200
   \<and> refreshTokens (snd (logoutRoute exampleEnv 1000000 exampleStore garbageRefreshLogout)) =
        refreshTokens exampleStore
   \<and> logoutRoute exampleEnv 2000000 exampleStore staleLogout =
        (\<lparr> status = 401,
           jsonBody = JObject [(''error'', JString ''Invalid or expired token''),
                               (''code'', JString ''TOKEN_INVALID'')],
           cookieOps = [] \<rparr>, exampleStore)"
proof -
  let ?ap = "\<lparr> a_userId = ''u1'', a_email = ''ada@example.com'', a_role = ''student'',
              a_iat = Some 1000, a_exp = Some (1900::nat) \<rparr>"
  have m: "middlewareToken garbageRefreshLogout = Some ''access-ada''"
    by (simp add: middlewareToken_def garbageRefreshLogout_def emptyRequest_def second_def
        orElse_def truthy_def)
  have a: "authenticateToken exampleEnv 1000000 exampleStore garbageRefreshLogout = Inr exampleUser"
    by (simp add: authenticateToken_def m isTokenBlacklisted_def
      storageIsTokenBlacklisted_def exampleStore_def verifyAccessToken_def jwtVerifyAccess_def
      exampleEnv_def expired_def getUser_def exampleUser_def)
  have v: "verifyRefreshToken exampleEnv 1000000 exampleStore ''garbage'' = None"
    by (simp add: verifyRefreshToken_def jwtVerifyRefresh_def exampleEnv_def)
  have c: "\<forall>t. cookieRefreshToken garbageRefreshLogout = Some t \<longrightarrow>
             verifyRefreshToken exampleEnv 1000000 exampleStore t = None"
    using v by (simp add: garbageRefreshLogout_def emptyRequest_def)
  have cr: "cookieRefreshToken staleLogout = Some ''refresh-ada''"
    by (simp add: staleLogout_def emptyRequest_def)
  note T0 = logout_succeeds_once_authenticated
      [where e = exampleEnv and now = 1000000 and st = exampleStore
         and req = staleLogout and user = exampleUser
         and t = "''access-ada''" and payload = ?ap and x = 1900
         and rt = "''refresh-ada''" and rpayload = examplePayload and later = 1000001
         and rejected = "reject401 [] []"]
  note T1 = logout_succeeds_once_authenticated
      [where e = exampleEnv and now = 1000000 and st = exampleStore
         and req = garbageRefreshLogout and user = exampleUser
         and t = "''access-ada''" and payload = ?ap and x = 1900
         and rt = "''garbage''" and rpayload = examplePayload and later = 1000001
         and rejected = "reject401 [] []"]
  note T2 = logout_succeeds_once_authenticated
      [where e = exampleEnv and now = 2000000 and st = exampleStore
         and req = staleLogout and user = exampleUser
         and t = "''access-ada''" and payload = ?ap and x = 1900
         and rt = "''refresh-ada''" and rpayload = examplePayload and later = 1000001
         and rejected = "\<lparr> status = 401,
           jsonBody = JObject [(''error'', JString ''Invalid or expired token''),
                               (''code'', JString ''TOKEN_INVALID'')],
           cookieOps = [] \<rparr>"]
  have s0: "status (fst (logoutRoute exampleEnv 1000000 exampleStore staleLogout)) = 200"
    using T0 authenticateToken_staleLogout_valid by simp
  have b0: "isTokenBlacklisted (snd (logoutRoute exampleEnv 1000000 exampleStore staleLogout))
        ''access-ada''"
    using T0 authenticateToken_staleLogout_valid logoutToken_staleLogout
      verifyAccessToken_example by simp
  have r0: "verifyRefreshToken exampleEnv 1000001
        (snd (logoutRoute exampleEnv 1000000 exampleStore staleLogout)) ''refresh-ada'' = None"
    using T0 authenticateToken_staleLogout_valid cr example_verifyRefresh by simp
  have s1: "status (fst (logoutRoute exampleEnv 1000000 exampleStore garbageRefreshLogout)) = 200"
    using T1 a by simp
  have r1: "refreshTokens (snd (logoutRoute exampleEnv 1000000 exampleStore garbageRefreshLogout)) =
        refreshTokens exampleStore"
    using T1 a c by simp
  have r2: "logoutRoute exampleEnv 2000000 exampleStore staleLogout =
        (\<lparr> status = 401,
           jsonBody = JObject [(''error'', JString ''Invalid or expired token''),
                               (''code'', JString ''TOKEN_INVALID'')],
           cookieOps = [] \<rparr>, exampleStore)"
    using T2 authenticateToken_staleLogout_expired by simp
  show ?thesis
    using authenticateToken_staleLogout_valid verifyAccessToken_example example_verifyRefresh
      s0 b0 r0 a v s1 r1 r2
    by simp
qed

section \<open>Login failures\<close>

text \<open>
  C9. For a login request that passes validation, the response when no user has the
  email and the response when the user exists but the password comparison returns
  false are the same: status 401, body error "Invalid credentials" with code
  INVALID_CREDENTIALS, no cookie set, and the store unchanged; the clock and the random
  values of the two runs do not matter.
\<close>

theorem login_failures_indistinguishable:
  assumes "loginValidationSchema e req = Inr (mail, password)"
    and "getUserByEmail st1 mail = None"
    and "getUserByEmail st2 mail = Some user"
    and "comparePasswords e password (u_password user) = Inr False"
  shows "loginHandler e now1 rnd1 st1 req =
           (\<lparr> status = 401,
              jsonBody = JObject [(''error'', JString ''Invalid credentials''),
                                  (''code'', JString ''INVALID_CREDENTIALS'')],
              cookieOps = [] \<rparr>, st1)
       \<and> loginHandler e now2 rnd2 st2 req =
           (\<lparr> status = 401,
              jsonBody = JObject [(''error'', JString ''Invalid credentials''),
                                  (''code'', JString ''INVALID_CREDENTIALS'')],
              cookieOps = [] \<rparr>, st2)
       \<and> fst (loginHandler e now1 rnd1 st1 req) = fst (loginHandler e now2 rnd2 st2 req)"
  using assms by (simp add: loginHandler_def reject401_def errorBody_def)

lemma splitOn_example_email:
  "splitOn (CHR ''@'') ''ada@example.com'' = [''ada'', ''example.com'']"
  by simp

lemma emailIssues_example: "emailIssues exampleEnv ''ada@example.com'' = []"
  by (simp add: emailIssues_def issueIf_def exampleEnv_def emailRefine_def splitOn_example_email
      startsWith_def endsWith_def charMatches_def)

lemma loginValidation_example:
  "loginValidationSchema exampleEnv wrongPasswordLogin = Inr (''ada@example.com'', ''Str0ng!Pass8'')"
  by (simp add: loginValidationSchema_def loginIssues_def fieldIssues_def wrongPasswordLogin_def
      emptyRequest_def emailIssues_example issueIf_def)

lemma comparePasswords_example_wrong:
  "comparePasswords exampleEnv ''Str0ng!Pass8'' (u_password exampleUser) = Inr False"
  by code_simp

text \<open>
  The example: the same wrong-password login against a store without the user and
  against the store with the user.
\<close>

theorem login_failures_indistinguishable_witness:
  "loginValidationSchema exampleEnv wrongPasswordLogin = Inr (''ada@example.com'', ''Str0ng!Pass8'')
   \<and> getUserByEmail (exampleStore\<lparr>users := []\<rparr>) ''ada@example.com'' = None
   \<and> getUserByEmail exampleStore ''ada@example.com'' = Some exampleUser
   \<and> comparePasswords exampleEnv ''Str0ng!Pass8'' (u_password exampleUser) = Inr False
   \<and> fst (loginHandler exampleEnv 1000000 exampleRandomness (exampleStore\<lparr>users := []\<rparr>)
             wrongPasswordLogin)
       = fst (loginHandler exampleEnv 1000000 exampleRandomness exampleStore wrongPasswordLogin)
   \<and> status (fst (loginHandler exampleEnv 1000000 exampleRandomness exampleStore
                     wrongPasswordLogin)) = 401"
proof -
  have n: "getUserByEmail (exampleStore\<lparr>users := []\<rparr>) ''ada@example.com'' = None"
    by (simp add: getUserByEmail_def)
  have s: "getUserByEmail exampleStore ''ada@example.com'' = Some exampleUser"
    by (simp add: getUserByEmail_def exampleStore_def exampleUser_def)
  show ?thesis
    using login_failures_indistinguishable
            [OF loginValidation_example n s comparePasswords_example_wrong,
             of 1000000 exampleRandomness 1000000 exampleRandomness]
      loginValidation_example n s comparePasswords_example_wrong
    by simp
qed

section \<open>Accepted passwords and malformed credentials\<close>

lemma registration_password_valid:
  assumes "registrationValidationSchema e req = Inr (n, mail, p)"
  shows "passwordValidationSchema p"
proof -
  from assms have iss: "registrationIssues e req = []"
    and pw: "map_of (body req) ''password'' = Some p"
    by (auto simp: registrationValidationSchema_def split: option.splits if_splits)
  from iss have "fieldIssues ''password'' passwordIssues req = []"
    by (simp add: registrationIssues_def)
  with pw show ?thesis
    by (simp add: fieldIssues_def passwordValidationSchema_def)
qed

lemma accepted_score_ge_7:
  assumes "passwordValidationSchema p"
  shows "7 \<le> score (calculatePasswordStrength p)"
proof -
  from assms have "8 \<le> length p" "testClass isLower p" "testClass isUpper p"
     "testClass isDigit p" "testClass isSpecial p" "\<not> hasSequential p" "\<not> hasRepeated p"
    by (simp_all add: passwordValidationSchema_iff)
  then show ?thesis unfolding score_sum by simp
qed

lemma strength_good_or_strong:
  assumes "7 \<le> score (calculatePasswordStrength p)"
  shows "strength (calculatePasswordStrength p) = Good \<or>
         strength (calculatePasswordStrength p) = Strong"
  using assms unfolding strength_is_strengthOf by (auto simp: strengthOf_def)

lemma registerHandler_not_weak_body:
  "jsonBody (fst (registerHandler e now rnd st req)) \<noteq> jsonBody (weakPasswordResponse a)"
proof (cases "registrationValidationSchema e req")
  case (Inl issues)
  then show ?thesis by (simp add: registerHandler_def weakPasswordResponse_def)
next
  case (Inr r)
  obtain n mail p where r: "r = (n, mail, p)" by (cases r) auto
  have v: "passwordValidationSchema p"
    using Inr r registration_password_valid by simp
  have s: "strength (calculatePasswordStrength p) \<noteq> VeryWeak"
          "strength (calculatePasswordStrength p) \<noteq> Weak"
    using strength_good_or_strong[OF accepted_score_ge_7[OF v]] by auto
  show ?thesis
    using Inr r s
    by (auto simp: registerHandler_def weakPasswordResponse_def Let_def errorBody_def
        internalError_def split: option.splits sum.splits prod.splits)
qed

text \<open>
  C10. A password the schema accepts scores at least 7 and its band is good or strong.
  The password of a registration that passes validation is such a password, so its band
  is neither very-weak nor weak, and no run of the registration handler answers with
  the weak-password body.
\<close>

theorem accepted_password_is_good_or_strong:
  "(passwordValidationSchema p \<longrightarrow>
      7 \<le> score (calculatePasswordStrength p)
      \<and> (strength (calculatePasswordStrength p) = Good
          \<or> strength (calculatePasswordStrength p) = Strong))
 \<and> (registrationValidationSchema e req = Inr (n, mail, p) \<longrightarrow>
      passwordValidationSchema p
      \<and> strength (calculatePasswordStrength p) \<noteq> VeryWeak
      \<and> strength (calculatePasswordStrength p) \<noteq> Weak)
 \<and> jsonBody (fst (registerHandler e now rnd st req)) \<noteq> jsonBody (weakPasswordResponse a)"
proof (intro conjI impI)
  assume v: "passwordValidationSchema p"
  show "7 \<le> score (calculatePasswordStrength p)" using v by (rule accepted_score_ge_7)
  then show "strength (calculatePasswordStrength p) = Good
          \<or> strength (calculatePasswordStrength p) = Strong"
    by (rule strength_good_or_strong)
next
  assume r: "registrationValidationSchema e req = Inr (n, mail, p)"
  then show v: "passwordValidationSchema p" by (rule registration_password_valid)
  from strength_good_or_strong[OF accepted_score_ge_7[OF v]]
  show "strength (calculatePasswordStrength p) \<noteq> VeryWeak"
    and "strength (calculatePasswordStrength p) \<noteq> Weak" by auto
next
  show "jsonBody (fst (registerHandler e now rnd st req)) \<noteq> jsonBody (weakPasswordResponse a)"
    by (rule registerHandler_not_weak_body)
qed

lemma schema_accepts_example: "passwordValidationSchema ''Str0ng!Pass9''"
  by code_simp

lemma registrationValidation_example:
  "registrationValidationSchema exampleEnv exampleRegistration =
     Inr (''Bob Bee'', ''bob@example.com'', ''Str0ng!Pass9'')"
  by code_simp

text \<open>
  The example: a registration with the password Str0ng!Pass9.
\<close>

theorem accepted_password_is_good_or_strong_witness:
  "passwordValidationSchema ''Str0ng!Pass9''
   \<and> registrationValidationSchema exampleEnv exampleRegistration =
        Inr (''Bob Bee'', ''bob@example.com'', ''Str0ng!Pass9'')
   \<and> 7 \<le> score (calculatePasswordStrength ''Str0ng!Pass9'')
   \<and> strength (calculatePasswordStrength ''Str0ng!Pass9'') \<noteq> VeryWeak
   \<and> strength (calculatePasswordStrength ''Str0ng!Pass9'') \<noteq> Weak"
  using accepted_password_is_good_or_strong
          [where p = "''Str0ng!Pass9''" and e = exampleEnv and req = exampleRegistration
             and n = "''Bob Bee''" and mail = "''bob@example.com''"]
        schema_accepts_example registrationValidation_example
  by simp

lemma splitOn_with_sep:
  "sep \<in> set s \<Longrightarrow>
   \<exists>salt others. splitOn sep s = takeWhile (\<lambda>c. c \<noteq> sep) s # salt # others"
proof (induction s)
  case Nil
  then show ?case by simp
next
  case (Cons c cs)
  show ?case
  proof (cases "c = sep")
    case True
    then show ?thesis
      using splitOn_nonempty[of sep cs] by (cases "splitOn sep cs") auto
  next
    case False
    with Cons obtain salt others where
      "splitOn sep cs = takeWhile (\<lambda>c. c \<noteq> sep) cs # salt # others" by auto
    with False show ?thesis by simp
  qed
qed

lemma takeWhile_sep: "sep \<notin> set a \<Longrightarrow> takeWhile (\<lambda>c. c \<noteq> sep) (a @ sep # b) = a"
  by (induction a) auto

text \<open>
  C2, as the code has it. Let scrypt return the 64 bytes it is asked for. A stored
  credential without a dot makes comparePasswords throw a TypeError (the salt is
  undefined); one with a dot whose hash part does not decode to 64 bytes makes it
  throw a RangeError (timingSafeEqual on buffers of different length); it returns a
  boolean exactly when the stored string has a dot and the part before the first dot
  decodes to 64 bytes.
\<close>

theorem comparePasswords_malformed_throws:
  assumes "\<forall>p s. length (scrypt e p s 64) = 64"
  shows "(CHR ''.'' \<notin> set stored \<longrightarrow> comparePasswords e supplied stored = Inl TypeError)
       \<and> (CHR ''.'' \<in> set stored
          \<and> length (fromHex (takeWhile (\<lambda>c. c \<noteq> CHR ''.'') stored)) \<noteq> 64 \<longrightarrow>
            comparePasswords e supplied stored = Inl RangeError)
       \<and> ((\<exists>b. comparePasswords e supplied stored = Inr b) \<longleftrightarrow>
            CHR ''.'' \<in> set stored
            \<and> length (fromHex (takeWhile (\<lambda>c. c \<noteq> CHR ''.'') stored)) = 64)"
proof (cases "CHR ''.'' \<in> set stored")
  case False
  then have "comparePasswords e supplied stored = Inl TypeError"
    by (simp add: comparePasswords_def splitOn_no_sep)
  with False show ?thesis by simp
next
  case True
  then obtain salt others where
    sp: "splitOn (CHR ''.'') stored = takeWhile (\<lambda>c. c \<noteq> CHR ''.'') stored # salt # others"
    using splitOn_with_sep by blast
  have "comparePasswords e supplied stored =
          timingSafeEqual (fromHex (takeWhile (\<lambda>c. c \<noteq> CHR ''.'') stored))
            (scrypt e supplied salt 64)"
    by (simp add: comparePasswords_def sp Let_def)
  with True assms show ?thesis
    by (auto simp: timingSafeEqual_def)
qed

text \<open>
  C2 as stated fails: on a stored value without separator, and on one whose hash part
  decodes to 4 bytes, comparePasswords throws and does not return false.
\<close>

theorem comparePasswords_malformed_counterexample:
  "comparePasswords exampleEnv ''Str0ng!Pass9'' ''0a1b2c3d'' = Inl TypeError
   \<and> comparePasswords exampleEnv ''Str0ng!Pass9'' ''0a1b2c3d.0102'' = Inl RangeError"
  by (simp add: comparePasswords_def exampleEnv_def timingSafeEqual_def hexValue_def
      isDigit_def code_def)

text \<open>
  The example environment returns 64 bytes; the two malformed values throw and the
  credential of the example user compares to a boolean.
\<close>

theorem comparePasswords_malformed_throws_witness:
  "(\<forall>p s. length (scrypt exampleEnv p s 64) = 64)
   \<and> comparePasswords exampleEnv ''Str0ng!Pass9'' ''0a1b2c3d'' = Inl TypeError
   \<and> comparePasswords exampleEnv ''Str0ng!Pass9'' ''0a1b2c3d.0102'' = Inl RangeError
   \<and> (\<exists>b. comparePasswords exampleEnv ''Str0ng!Pass9'' (u_password exampleUser) = Inr b)"
proof -
  have h: "\<forall>p s. length (scrypt exampleEnv p s 64) = 64"
    by (simp add: exampleEnv_def)
  have l: "length (fromHex (takeWhile (\<lambda>c. c \<noteq> CHR ''.'') ''0a1b2c3d.0102'')) \<noteq> 64"
    by (simp add: hexValue_def isDigit_def code_def)
  have u: "u_password exampleUser =
      toHex (scrypt exampleEnv ''Str0ng!Pass9'' (toHex [1, 2]) 64) @ CHR ''.'' # toHex [1, 2]"
    by (simp add: exampleUser_def hashPassword_def Let_def)
  have d: "CHR ''.'' \<in> set (u_password exampleUser)"
    unfolding u by simp
  have tw: "takeWhile (\<lambda>c. c \<noteq> CHR ''.'') (u_password exampleUser) =
             toHex (scrypt exampleEnv ''Str0ng!Pass9'' (toHex [1, 2]) 64)"
    unfolding u by (rule takeWhile_sep) (rule toHex_no_dot)
  have l2: "length (fromHex (takeWhile (\<lambda>c. c \<noteq> CHR ''.'') (u_password exampleUser))) = 64"
    unfolding tw fromHex_toHex using h by simp
  show ?thesis
    using comparePasswords_malformed_throws[OF h, of "''0a1b2c3d''" "''Str0ng!Pass9''"]
      comparePasswords_malformed_throws[OF h, of "''0a1b2c3d.0102''" "''Str0ng!Pass9''"]
      comparePasswords_malformed_throws[OF h, of "u_password exampleUser" "''Str0ng!Pass9''"]
      h l d l2
    by simp
qed

section \<open>Expired rows and the sweep\<close>

text \<open>
  The invariant of the store: blacklist rows are as blacklistToken writes them, and
  refresh token ids are unique. It holds of the empty store and every operation and
  route handler of the model keeps it.
\<close>

lemma storeInvariant_empty: "storeInvariant e emptyStore"
  by (simp add: storeInvariant_def blacklistConsistent_def refreshTokensUnique_def emptyStore_def)

lemma storeInvariant_blacklistToken:
  "storeInvariant e st \<Longrightarrow> storeInvariant e (blacklistToken e now st t)"
  by (auto simp: storeInvariant_def blacklistConsistent_def refreshTokensUnique_def
      blacklistToken_def storageBlacklistToken_def jwtVerifyAccess_def
      split: sum.splits option.splits if_splits)

lemma storeInvariant_revokeRefreshToken:
  "storeInvariant e st \<Longrightarrow> storeInvariant e (revokeRefreshToken st tid uid)"
  by (auto simp: storeInvariant_def blacklistConsistent_def refreshTokensUnique_def
      revokeRefreshToken_def storageRevokeRefreshToken_def distinct_map_filter)

lemma storeInvariant_createRefreshToken:
  "storeInvariant e st \<Longrightarrow> createRefreshToken st row = Inr st' \<Longrightarrow> storeInvariant e st'"
proof -
  assume inv: "storeInvariant e st" and c: "createRefreshToken st row = Inr st'"
  from c have fresh: "rt_token row \<notin> rt_token ` set (refreshTokens st)"
    and st': "st' = st\<lparr>refreshTokens := refreshTokens st @ [row]\<rparr>"
    by (auto simp: createRefreshToken_def list_ex_iff split: if_splits)
  from inv fresh show ?thesis
    unfolding st' storeInvariant_def blacklistConsistent_def refreshTokensUnique_def
    by simp
qed

lemma storeInvariant_generateRefreshToken:
  "storeInvariant e st \<Longrightarrow> generateRefreshToken e now ib st uid = Inr (r, st') \<Longrightarrow>
   storeInvariant e st'"
  by (auto simp: generateRefreshToken_def Let_def split: sum.splits
      dest: storeInvariant_createRefreshToken)

lemma storeInvariant_createUser:
  "storeInvariant e st \<Longrightarrow> createUser st u = Inr (u', st') \<Longrightarrow> storeInvariant e st'"
  by (auto simp: storeInvariant_def blacklistConsistent_def refreshTokensUnique_def
      createUser_def split: if_splits)

lemma storeInvariant_cleanupExpiredTokens:
  "storeInvariant e st \<Longrightarrow> storeInvariant e (cleanupExpiredTokens now st)"
  by (auto simp: storeInvariant_def blacklistConsistent_def refreshTokensUnique_def
      cleanupExpiredTokens_def distinct_map_filter list_all_iff)

lemma storeInvariant_logoutRoute:
  "storeInvariant e st \<Longrightarrow> storeInvariant e (snd (logoutRoute e now st req))"
  by (auto simp: logoutRoute_def logoutHandler_def Let_def storeInvariant_blacklistToken
      storeInvariant_revokeRefreshToken split: sum.splits option.splits)

lemma storeInvariant_loginHandler:
  "storeInvariant e st \<Longrightarrow> storeInvariant e (snd (loginHandler e now rnd st req))"
  by (auto simp: loginHandler_def Let_def split: sum.splits option.splits prod.splits
      dest: storeInvariant_generateRefreshToken)

lemma storeInvariant_refreshHandler:
  "storeInvariant e st \<Longrightarrow> storeInvariant e (snd (refreshHandler e now rnd st req))"
  by (auto simp: refreshHandler_def Let_def storeInvariant_revokeRefreshToken
      split: sum.splits option.splits prod.splits
      dest: storeInvariant_generateRefreshToken[OF storeInvariant_revokeRefreshToken])

lemma storeInvariant_registerHandler:
  "storeInvariant e st \<Longrightarrow> storeInvariant e (snd (registerHandler e now rnd st req))"
  by (auto simp: registerHandler_def Let_def split: sum.splits option.splits prod.splits
      dest: storeInvariant_generateRefreshToken storeInvariant_createUser)

lemma storeInvariant_logoutAllRoute:
  "storeInvariant e st \<Longrightarrow> storeInvariant e (snd (logoutAllRoute e now st req))"
  by (auto simp: logoutAllRoute_def storeInvariant_def blacklistConsistent_def
      refreshTokensUnique_def revokeAllRefreshTokens_def storageRevokeAllRefreshTokens_def
      distinct_map_filter split: sum.splits)

text \<open>
  Every reachable store satisfies the invariant, and the example store is reachable: it
  is the empty store after the registration of the example user.
\<close>

lemma reachable_storeInvariant: "reachable e st \<Longrightarrow> storeInvariant e st"
proof (induction rule: reachable.induct)
  case initial
  show ?case by (rule storeInvariant_empty)
next
  case (register st now rnd req)
  then show ?case by (simp add: storeInvariant_registerHandler)
next
  case (login st now rnd req)
  then show ?case by (simp add: storeInvariant_loginHandler)
next
  case (refresh st now rnd req)
  then show ?case by (simp add: storeInvariant_refreshHandler)
next
  case (logout st now req)
  then show ?case by (simp add: storeInvariant_logoutRoute)
next
  case (logoutAll st now req)
  then show ?case by (simp add: storeInvariant_logoutAllRoute)
next
  case (sweep st now)
  then show ?case by (simp add: storeInvariant_cleanupExpiredTokens)
qed

lemma adaRegistration_valid:
  "registrationValidationSchema exampleEnv adaRegistration =
     Inr (''Ada Lovelace'', ''ada@example.com'', ''Str0ng!Pass9'')"
  by code_simp

lemma strength_example: "strength (calculatePasswordStrength ''Str0ng!Pass9'') = Good"
  by code_simp

lemma exampleStore_registered:
  "snd (registerHandler exampleEnv 1000000 adaRandomness emptyStore adaRegistration) = exampleStore"
proof -
  have g: "getUserByEmail emptyStore ''ada@example.com'' = None"
    by (simp add: getUserByEmail_def emptyStore_def)
  have h: "hashPassword exampleEnv (saltBytes adaRandomness) ''Str0ng!Pass9'' =
             u_password exampleUser"
    by (simp add: exampleUser_def adaRandomness_def)
  have c: "createUser emptyStore
             \<lparr> u_id = newUserId adaRandomness, u_name = ''Ada Lovelace'',
               u_email = ''ada@example.com'', u_password = u_password exampleUser,
               u_role = ''student'' \<rparr> =
           Inr (exampleUser, emptyStore\<lparr>users := [exampleUser]\<rparr>)"
    by (simp add: createUser_def emptyStore_def adaRandomness_def exampleUser_def)
  have t: "toHex (idBytes adaRandomness) = ''aa01''"
    by code_simp
  have r: "generateRefreshToken exampleEnv 1000000 (idBytes adaRandomness)
             (emptyStore\<lparr>users := [exampleUser]\<rparr>) (u_id exampleUser) =
           Inr ((''refresh-ada'', ''aa01''), exampleStore)"
    unfolding generateRefreshToken_def t
    by (simp add: Let_def createRefreshToken_def getUser_def emptyStore_def exampleStore_def
        exampleUser_def exampleEnv_def)
  show ?thesis
    by (simp add: registerHandler_def adaRegistration_valid g strength_example h c r)
qed

lemma reachable_exampleStore: "reachable exampleEnv exampleStore"
  using reachable.register[OF reachable.initial, of exampleEnv 1000000 adaRandomness adaRegistration]
  by (simp add: exampleStore_registered)

lemma find_filter_unique:
  assumes "distinct (map rt_token xs)"
  shows "find (\<lambda>r. rt_token r = tid \<and> rt_userId r = uid) (filter Q xs) =
         (case find (\<lambda>r. rt_token r = tid \<and> rt_userId r = uid) xs of
            None \<Rightarrow> None
          | Some r \<Rightarrow> if Q r then Some r else None)"
  using assms
proof (induction xs)
  case Nil
  show ?case by simp
next
  case (Cons x xs)
  show ?case
  proof (cases "rt_token x = tid \<and> rt_userId x = uid")
    case True
    from Cons.prems have "rt_token x \<notin> rt_token ` set xs" by simp
    with True have "tid \<notin> rt_token ` set xs" by simp
    then have "\<And>y. y \<in> set xs \<Longrightarrow> rt_token y \<noteq> tid" by blast
    then have "find (\<lambda>r. rt_token r = tid \<and> rt_userId r = uid) (filter Q xs) = None"
      by (auto simp: find_None_iff)
    with True show ?thesis by simp
  next
    case False
    from Cons have "find (\<lambda>r. rt_token r = tid \<and> rt_userId r = uid) (filter Q xs) =
         (case find (\<lambda>r. rt_token r = tid \<and> rt_userId r = uid) xs of
            None \<Rightarrow> None
          | Some r \<Rightarrow> if Q r then Some r else None)" by simp
    with False show ?thesis by auto
  qed
qed

lemma verifyRefreshToken_cleanup:
  assumes "refreshTokensUnique st"
  shows "verifyRefreshToken e now (cleanupExpiredTokens now st) token =
         verifyRefreshToken e now st token"
proof -
  have "getRefreshToken (cleanupExpiredTokens now st) tid uid =
        (case getRefreshToken st tid uid of
           None \<Rightarrow> None
         | Some r \<Rightarrow> if \<not> rt_expiresAt r < now then Some r else None)" for tid uid
    using assms
    by (simp add: getRefreshToken_def cleanupExpiredTokens_def refreshTokensUnique_def
        find_filter_unique)
  then show ?thesis
    by (simp add: verifyRefreshToken_def split: sum.splits option.splits)
qed

lemma expired_row_invalid:
  assumes "decodeRefresh e token = Some payload"
    and "getRefreshToken st (r_tokenId payload) (r_userId payload) = Some row"
    and "rt_expiresAt row < now"
  shows "verifyRefreshToken e now st token = None"
  using assms by (simp add: verifyRefreshToken_def jwtVerifyRefresh_def split: sum.splits)

lemma expired_entry_dead:
  assumes "blacklistConsistent e st" and "b \<in> set (blacklistedTokens st)"
    and "bl_expiresAt b < now"
  shows "verifyAccessToken e now (bl_token b) = None"
proof -
  from assms(1,2) have
    "case decodeAccess e (bl_token b) of
       None \<Rightarrow> False
     | Some payload \<Rightarrow>
         (case a_exp payload of None \<Rightarrow> False | Some x \<Rightarrow> bl_expiresAt b = x * 1000)"
    unfolding blacklistConsistent_def list_all_iff by blast
  then obtain payload x where d: "decodeAccess e (bl_token b) = Some payload"
    and x: "a_exp payload = Some x" and eq: "bl_expiresAt b = x * 1000"
    by (cases "decodeAccess e (bl_token b)") (auto split: option.splits)
  from eq assms(3) have "x * 1000 < now" by simp
  then have "x \<le> now div 1000" by arith
  with d x show ?thesis
    by (simp add: verifyAccessToken_def jwtVerifyAccess_def expired_def)
qed

lemma isTokenBlacklisted_iff:
  "isTokenBlacklisted st t \<longleftrightarrow> (\<exists>b. b \<in> set (blacklistedTokens st) \<and> bl_token b = t)"
  by (auto simp: isTokenBlacklisted_def storageIsTokenBlacklisted_def find_None_iff)

lemma authenticateToken_cleanup:
  assumes "blacklistConsistent e st"
  shows "(authenticateToken e now (cleanupExpiredTokens now st) req = Inr user) =
         (authenticateToken e now st req = Inr user)"
proof (cases "middlewareToken req")
  case None
  then show ?thesis by (simp add: authenticateToken_def)
next
  case (Some t)
  have users: "getUser (cleanupExpiredTokens now st) = getUser st"
    by (simp add: getUser_def cleanupExpiredTokens_def fun_eq_iff)
  show ?thesis
  proof (cases "isTokenBlacklisted st t")
    case False
    then have "\<not> isTokenBlacklisted (cleanupExpiredTokens now st) t"
      by (auto simp: isTokenBlacklisted_iff cleanupExpiredTokens_def)
    with False Some users show ?thesis
      by (simp add: authenticateToken_def split: option.splits)
  next
    case True
    then obtain b where b: "b \<in> set (blacklistedTokens st)" "bl_token b = t"
      by (auto simp: isTokenBlacklisted_iff)
    have left: "authenticateToken e now st req \<noteq> Inr user"
      using True Some by (simp add: authenticateToken_def)
    have right: "authenticateToken e now (cleanupExpiredTokens now st) req \<noteq> Inr user"
    proof (cases "bl_expiresAt b < now")
      case True
      then have "verifyAccessToken e now t = None"
        using expired_entry_dead[OF assms b(1), of now] b(2) by simp
      with Some show ?thesis by (simp add: authenticateToken_def)
    next
      case False
      with b have "isTokenBlacklisted (cleanupExpiredTokens now st) t"
        by (auto simp: isTokenBlacklisted_iff cleanupExpiredTokens_def)
      with Some show ?thesis by (simp add: authenticateToken_def)
    qed
    from left right show ?thesis by simp
  qed
qed

text \<open>
  C5. In a store that satisfies the invariant, as every reachable store does, expired
  rows count as invalid while they still exist. A refresh token whose record has an \<open>expiresAt\<close> before now does not
  verify, whatever the expiry claim of the token itself. The token of a blacklist row
  whose \<open>expiresAt\<close> is before now no longer verifies on its own. Hence the sweep
  changes nothing that is observed: verifyRefreshToken gives the same result after
  cleanupExpiredTokens as before, and the middleware accepts a request with a user after
  the sweep exactly when it does before.
\<close>

theorem expired_rows_are_invalid_before_the_sweep:
  assumes "storeInvariant e st"
  shows "(decodeRefresh e token = Some payload
          \<and> getRefreshToken st (r_tokenId payload) (r_userId payload) = Some row
          \<and> rt_expiresAt row < now \<longrightarrow> verifyRefreshToken e now st token = None)
       \<and> (b \<in> set (blacklistedTokens st) \<and> bl_expiresAt b < now \<longrightarrow>
            verifyAccessToken e now (bl_token b) = None)
       \<and> verifyRefreshToken e now (cleanupExpiredTokens now st) token =
            verifyRefreshToken e now st token
       \<and> (authenticateToken e now (cleanupExpiredTokens now st) req = Inr user) =
            (authenticateToken e now st req = Inr user)"
proof -
  from assms have bc: "blacklistConsistent e st" and u: "refreshTokensUnique st"
    by (simp_all add: storeInvariant_def)
  show ?thesis
    using expired_row_invalid[of e token payload st row now]
      expired_entry_dead[OF bc, of b now]
      verifyRefreshToken_cleanup[OF u, of e now token]
      authenticateToken_cleanup[OF bc, of now req user]
    by blast
qed

lemma storeInvariant_staleStore: "storeInvariant exampleEnv staleStore"
  by (simp add: storeInvariant_def blacklistConsistent_def refreshTokensUnique_def
      staleStore_def exampleEnv_def)

text \<open>
  The example: a record expired at millisecond 500000 makes the refresh token invalid
  at 1000000 although the token's own claim runs much longer; the blacklisted access
  token, expired at second 1900, is rejected at 2000000 with and without its row.
\<close>

theorem expired_rows_are_invalid_before_the_sweep_witness:
  "storeInvariant exampleEnv staleStore
   \<and> jwtVerifyRefresh exampleEnv 1000000 ''refresh-ada'' = Inr examplePayload
   \<and> getRefreshToken staleStore ''aa01'' ''u1'' =
        Some \<lparr> rt_userId = ''u1'', rt_token = ''aa01'', rt_expiresAt = 500000 \<rparr>
   \<and> verifyRefreshToken exampleEnv 1000000 staleStore ''refresh-ada'' = None
   \<and> verifyAccessToken exampleEnv 2000000 ''access-ada'' = None
   \<and> verifyRefreshToken exampleEnv 1000000 (cleanupExpiredTokens 1000000 staleStore)
        ''refresh-ada'' = None
   \<and> authenticateToken exampleEnv 2000000 (cleanupExpiredTokens 2000000 staleStore) bearerAda
        \<noteq> Inr exampleUser"
proof -
  have j: "jwtVerifyRefresh exampleEnv 1000000 ''refresh-ada'' = Inr examplePayload"
    by (simp add: jwtVerifyRefresh_def exampleEnv_def expired_def examplePayload_def)
  have d: "decodeRefresh exampleEnv ''refresh-ada'' = Some examplePayload"
    by (simp add: exampleEnv_def examplePayload_def)
  have g: "getRefreshToken staleStore (r_tokenId examplePayload) (r_userId examplePayload) =
        Some \<lparr> rt_userId = ''u1'', rt_token = ''aa01'', rt_expiresAt = 500000 \<rparr>"
    by (simp add: getRefreshToken_def staleStore_def examplePayload_def)
  have b: "\<lparr> bl_token = ''access-ada'', bl_expiresAt = 1900000 \<rparr> \<in> set (blacklistedTokens staleStore)"
    by (simp add: staleStore_def)
  have a: "authenticateToken exampleEnv 2000000 staleStore bearerAda \<noteq> Inr exampleUser"
    by (simp add: authenticateToken_def middlewareToken_bearerAda isTokenBlacklisted_def
        storageIsTokenBlacklisted_def staleStore_def)
  note T1 = expired_rows_are_invalid_before_the_sweep[OF storeInvariant_staleStore,
      where token = "''refresh-ada''" and payload = examplePayload and now = 1000000
        and row = "\<lparr> rt_userId = ''u1'', rt_token = ''aa01'', rt_expiresAt = 500000 \<rparr>"
        and b = "\<lparr> bl_token = ''access-ada'', bl_expiresAt = 1900000 \<rparr>"
        and req = bearerAda and user = exampleUser]
  note T2 = expired_rows_are_invalid_before_the_sweep[OF storeInvariant_staleStore,
      where token = "''refresh-ada''" and payload = examplePayload and now = 2000000
        and row = "\<lparr> rt_userId = ''u1'', rt_token = ''aa01'', rt_expiresAt = 500000 \<rparr>"
        and b = "\<lparr> bl_token = ''access-ada'', bl_expiresAt = 1900000 \<rparr>"
        and req = bearerAda and user = exampleUser]
  have v1: "verifyRefreshToken exampleEnv 1000000 staleStore ''refresh-ada'' = None"
    using T1 d g by simp
  have v2: "verifyAccessToken exampleEnv 2000000 ''access-ada'' = None"
    using T2 b by simp
  have v3: "verifyRefreshToken exampleEnv 1000000 (cleanupExpiredTokens 1000000 staleStore)
        ''refresh-ada'' = None"
    using T1 v1 by simp
  have v4: "authenticateToken exampleEnv 2000000 (cleanupExpiredTokens 2000000 staleStore)
        bearerAda \<noteq> Inr exampleUser"
    using T2 a by simp
  show ?thesis
    using storeInvariant_staleStore j g v1 v2 v3 v4 by (simp add: examplePayload_def)
qed

section \<open>The password schema against the rule of the specification\<close>

text \<open>
  C7. The schema accepts the password of eight characters A a 1 ! LF LF LF Z, in which
  the line feed is repeated three times in a row: the atom \<open>.\<close> of the repeated-character
  pattern does not match a line terminator, so the pattern finds no run, while the rule
  of the specification rejects the password.
\<close>

theorem password_schema_misses_line_terminator_run:
  "passwordValidationSchema newlinePassword
   \<and> \<not> hasRepeated newlinePassword
   \<and> specRepeatedRun newlinePassword
   \<and> \<not> specPasswordAccepted newlinePassword"
  by code_simp

text \<open>
  Away from line terminators the schema and the rule of the specification agree; the
  lemmas below prove it pattern by pattern.
\<close>

lemma code_inj: "code a = code b \<Longrightarrow> a = b"
  unfolding code_def by (metis char_of_char)

lemma charMatches_nonletter:
  "\<not> isLower d \<Longrightarrow> \<not> isUpper d \<Longrightarrow> charMatches True d c = charMatches False d c"
  by (auto simp: charMatches_def canonicalize_def isLower_def isUpper_def dest: code_inj)

lemma matchesAt_nonletter:
  "list_all (\<lambda>d. \<not> isLower d \<and> \<not> isUpper d) pat \<Longrightarrow>
   matchesAt True pat s = matchesAt False pat s"
  by (induction True pat s rule: matchesAt.induct) (auto simp: charMatches_nonletter)

lemma testLiteral_nonletter:
  "list_all (\<lambda>d. \<not> isLower d \<and> \<not> isUpper d) pat \<Longrightarrow>
   testLiteral True pat s = testLiteral False pat s"
  by (induction s) (auto simp: matchesAt_nonletter)

lemma hasCommonPattern_spec: "hasCommonPattern p = specDenylisted p"
proof -
  have "list_all (\<lambda>d. \<not> isLower d \<and> \<not> isUpper d) ''123456''"
    by (simp add: isLower_def isUpper_def code_def)
  then have "testLiteral False ''123456'' p = testLiteral True ''123456'' p"
    by (simp add: testLiteral_nonletter)
  then show ?thesis
    by (simp add: hasCommonPattern_def commonPatterns_def specDenylisted_def specDenylist_def)
qed

lemma hasRepeated_spec: "list_all dot p \<Longrightarrow> hasRepeated p = specRepeatedRun p"
  by (induction p rule: hasRepeated.induct) auto

lemma letter_canonical:
  "(isLower a \<or> isUpper a) \<longleftrightarrow> 65 \<le> canonicalize a \<and> canonicalize a \<le> 90"
  by (auto simp: canonicalize_def isLower_def isUpper_def)

lemma digit_canonical:
  "isDigit a \<longleftrightarrow> 48 \<le> canonicalize a \<and> canonicalize a \<le> 57"
  by (auto simp: canonicalize_def isLower_def isDigit_def)

lemma digit_code: "isDigit a \<Longrightarrow> code a = canonicalize a"
  by (auto simp: canonicalize_def isLower_def isDigit_def)

lemma specNext_canonical:
  "specNext a b \<longleftrightarrow>
     (65 \<le> canonicalize a \<and> canonicalize b \<le> 90 \<or> 48 \<le> canonicalize a \<and> canonicalize b \<le> 57)
     \<and> canonicalize a + 1 = canonicalize b"
proof -
  have "specNext a b \<longleftrightarrow>
     ((65 \<le> canonicalize a \<and> canonicalize a \<le> 90) \<and> (65 \<le> canonicalize b \<and> canonicalize b \<le> 90)
        \<and> canonicalize a + 1 = canonicalize b)
     \<or> ((48 \<le> canonicalize a \<and> canonicalize a \<le> 57) \<and> (48 \<le> canonicalize b \<and> canonicalize b \<le> 57)
        \<and> canonicalize a + 1 = canonicalize b)"
    unfolding specNext_def letter_canonical
    using digit_code[of a] digit_code[of b] digit_canonical[of a] digit_canonical[of b]
    by auto
  then show ?thesis by auto
qed

lemma canonicalize_literals:
  "canonicalize (CHR ''a'') = 65"
  "canonicalize (CHR ''b'') = 66"
  "canonicalize (CHR ''c'') = 67"
  "canonicalize (CHR ''d'') = 68"
  "canonicalize (CHR ''e'') = 69"
  "canonicalize (CHR ''f'') = 70"
  "canonicalize (CHR ''g'') = 71"
  "canonicalize (CHR ''h'') = 72"
  "canonicalize (CHR ''i'') = 73"
  "canonicalize (CHR ''j'') = 74"
  "canonicalize (CHR ''k'') = 75"
  "canonicalize (CHR ''l'') = 76"
  "canonicalize (CHR ''m'') = 77"
  "canonicalize (CHR ''n'') = 78"
  "canonicalize (CHR ''o'') = 79"
  "canonicalize (CHR ''p'') = 80"
  "canonicalize (CHR ''q'') = 81"
  "canonicalize (CHR ''r'') = 82"
  "canonicalize (CHR ''s'') = 83"
  "canonicalize (CHR ''t'') = 84"
  "canonicalize (CHR ''u'') = 85"
  "canonicalize (CHR ''v'') = 86"
  "canonicalize (CHR ''w'') = 87"
  "canonicalize (CHR ''x'') = 88"
  "canonicalize (CHR ''y'') = 89"
  "canonicalize (CHR ''z'') = 90"
  "canonicalize (CHR ''0'') = 48"
  "canonicalize (CHR ''1'') = 49"
  "canonicalize (CHR ''2'') = 50"
  "canonicalize (CHR ''3'') = 51"
  "canonicalize (CHR ''4'') = 52"
  "canonicalize (CHR ''5'') = 53"
  "canonicalize (CHR ''6'') = 54"
  "canonicalize (CHR ''7'') = 55"
  "canonicalize (CHR ''8'') = 56"
  "canonicalize (CHR ''9'') = 57"
  by (simp_all add: canonicalize_def isLower_def code_def)

lemma ascending_triples:
  fixes ca cb cc :: nat
  shows "((65 \<le> ca \<and> cb \<le> 90 \<or> 48 \<le> ca \<and> cb \<le> 57) \<and> ca + 1 = cb)
       \<and> ((65 \<le> cb \<and> cc \<le> 90 \<or> 48 \<le> cb \<and> cc \<le> 57) \<and> cb + 1 = cc)
    \<longleftrightarrow> (cb = ca + 1 \<and> cc = ca + 2 \<and> (65 \<le> ca \<and> ca \<le> 88 \<or> 48 \<le> ca \<and> ca \<le> 55))"
  by auto

lemma matchesAt_three:
  "matchesAt True [p1, p2, p3] (a # b # c # rest) \<longleftrightarrow>
     map canonicalize [p1, p2, p3] = [canonicalize a, canonicalize b, canonicalize c]"
  by (simp add: charMatches_def)

lemma sequentialPatterns_codes:
  "map (map canonicalize) sequentialPatterns =
     map (\<lambda>k. [k, k + 1, k + 2]) ([65..<89] @ [48..<56])"
  by (simp add: sequentialPatterns_def canonicalize_literals)

lemma sequential_match_codes:
  "list_ex (\<lambda>pat. matchesAt True pat (a # b # c # rest)) sequentialPatterns \<longleftrightarrow>
        list_ex (\<lambda>pat. map canonicalize pat = [canonicalize a, canonicalize b, canonicalize c]) sequentialPatterns"
    unfolding sequentialPatterns_def 
    by (simp only: list_ex_Cons_iff list_ex_Nil_iff matchesAt_three)

lemma list_ex_eq_mem: "list_ex (\<lambda>pat. f pat = v) ps \<longleftrightarrow> v \<in> set (map f ps)"
  by (induction ps) auto

lemma ascending_codes_mem:
  fixes ca cb cc :: nat
  shows "[ca, cb, cc] \<in> set (map (\<lambda>k. [k, k + 1, k + 2]) ([65..<89] @ [48..<56])) \<longleftrightarrow>
      cb = ca + 1 \<and> cc = ca + 2 \<and> (65 \<le> ca \<and> ca \<le> 88 \<or> 48 \<le> ca \<and> ca \<le> 55)"
proof -
  have "[ca, cb, cc] \<in> set (map (\<lambda>k. [k, k + 1, k + 2]) ([65..<89] @ [48..<56])) \<longleftrightarrow>
        (\<exists>k. (k \<in> {65..<89} \<or> k \<in> {48..<56}) \<and> [ca, cb, cc] = [k, k + 1, k + 2])"
    by (simp only: set_map set_append set_upt image_iff Un_iff Bex_def)
  also have "\<dots> \<longleftrightarrow>
      cb = ca + 1 \<and> cc = ca + 2 \<and> (65 \<le> ca \<and> ca \<le> 88 \<or> 48 \<le> ca \<and> ca \<le> 55)"
    by (simp only: atLeastLessThan_iff list.inject) auto
  finally show ?thesis .
qed

lemma sequential_at_head:
  "list_ex (\<lambda>pat. matchesAt True pat (a # b # c # rest)) sequentialPatterns \<longleftrightarrow>
     specNext a b \<and> specNext b c"
  unfolding sequential_match_codes list_ex_eq_mem sequentialPatterns_codes ascending_codes_mem specNext_canonical
  by (rule ascending_triples[symmetric])

lemma matchesAt_length: "matchesAt ci pat s \<Longrightarrow> length pat \<le> length s"
  by (induction ci pat s rule: matchesAt.induct) auto

lemma testLiteral_short: "length s < length pat \<Longrightarrow> \<not> testLiteral ci pat s"
proof (induction s)
  case Nil
  then show ?case using matchesAt_length[of ci pat "[]"] by auto
next
  case (Cons c cs)
  then show ?case using matchesAt_length[of ci pat "c # cs"] by auto
qed

lemma sequentialPatterns_length: "list_all (\<lambda>pat. length pat = 3) sequentialPatterns"
  by (simp add: sequentialPatterns_def)

lemma hasSequential_short: "length s < 3 \<Longrightarrow> \<not> hasSequential s"
  using sequentialPatterns_length testLiteral_short[of s _ True]
  by (auto simp: hasSequential_def list_ex_iff list_all_iff)

lemma hasSequential_Cons:
  "hasSequential (x # xs) \<longleftrightarrow>
     list_ex (\<lambda>pat. matchesAt True pat (x # xs)) sequentialPatterns \<or> hasSequential xs"
  by (auto simp: hasSequential_def list_ex_iff)

lemma hasSequential_spec: "hasSequential s = specAscendingRun s"
proof (induction s rule: specAscendingRun.induct)
  case (1 a b c rest)
  then show ?case
    by (simp add: hasSequential_Cons[of a] sequential_at_head)
qed (simp_all add: hasSequential_short)

text \<open>
  For every password without a line feed or carriage return, the schema accepts the
  password exactly when the rule of the specification does.
\<close>

lemma passwordValidationSchema_spec:
  assumes "list_all dot p"
  shows "passwordValidationSchema p = specPasswordAccepted p"
  unfolding passwordValidationSchema_iff specPasswordAccepted_def testClass_def
    hasCommonPattern_spec hasSequential_spec hasRepeated_spec[OF assms]
  by (rule refl)

section \<open>The strength scorer against the score of the specification\<close>

text \<open>
  C8. The scorer gives the password A a 1 ! LF LF LF Z the point for the absence of a
  repeated run although the line feed is repeated three times in a row: it scores 7,
  band good, where the nine criteria of the specification give 6, band fair. The
  repeated-character pattern of the scorer is the one of the schema, and its atom \<open>.\<close>
  does not match a line terminator.
\<close>

theorem scorer_misses_line_terminator_run:
  "score (calculatePasswordStrength newlinePassword) = 7
   \<and> strength (calculatePasswordStrength newlinePassword) = Good
   \<and> specRepeatedRun newlinePassword
   \<and> specScore newlinePassword = 6
   \<and> specBand (specScore newlinePassword) = Fair"
  by code_simp

text \<open>
  For every password without a line feed or carriage return, the scorer computes the
  score and the band of the specification.
\<close>

lemma calculatePasswordStrength_spec:
  assumes "list_all dot p"
  shows "score (calculatePasswordStrength p) = specScore p"
    and "strength (calculatePasswordStrength p) = specBand (specScore p)"
proof -
  show s: "score (calculatePasswordStrength p) = specScore p"
    unfolding score_sum specScore_def testClass_def hasSequential_spec
      hasRepeated_spec[OF assms]
    by (rule refl)
  show "strength (calculatePasswordStrength p) = specBand (specScore p)"
    unfolding strength_is_strengthOf s by (simp add: strengthOf_def specBand_def)
qed

end
